theory Spec2Isabelle
  imports Main
begin

section \<open>Shared types (types.ts)\<close>

datatype OnlineGameStatus = waiting | active | completed | abandoned

datatype GameOutcome = win | draw | outcome_abandoned

text \<open>
  \<^verbatim>\<open>OnlineGame\<close>. \<open>blackPlayerId\<close> is \<^verbatim>\<open>string | null\<close>; \<open>outcome\<close> and \<open>winnerId\<close> are
  optional properties. \<open>moveHistory\<close> is optional in what the Realtime Database returns
  (the handlers read it as \<^verbatim>\<open>game.moveHistory ?? []\<close>), so \<open>None\<close> is the missing property.
\<close>

record OnlineGame =
  id :: string
  whitePlayerId :: string
  blackPlayerId :: "string option"
  fen :: string
  moveHistory :: "string list option"
  status :: OnlineGameStatus
  presetName :: string
  costModeName :: string
  createdAt :: string
  outcome :: "GameOutcome option"
  winnerId :: "string option"

text \<open>
  \<^verbatim>\<open>StepCostPreset\<close>: six per-piece base costs and the distance multiplier, and the
  preset's name. \<open>PresetValues\<close> is \<^verbatim>\<open>Omit<StepCostPreset, 'name'>\<close>, the shape of the
  JSON object stored in Remote Config. The numbers are modelled as integers, as every
  shipped preset has them.
\<close>

record PresetValues =
  pawn :: int
  knight :: int
  bishop :: int
  rook :: int
  queen :: int
  king :: int
  distanceCost :: int

record StepCostPreset = PresetValues +
  name :: string

text \<open>\<^verbatim>\<open>PieceType = 'p' | 'n' | 'b' | 'r' | 'q' | 'k'\<close>, chess.js's piece letter.\<close>

datatype PieceType = p | n | b | r | q | k

section \<open>Cost calculator (costCalculator.ts)\<close>

fun baseCostFor :: "StepCostPreset \<Rightarrow> PieceType \<Rightarrow> int" where
  "baseCostFor preset p = pawn preset"
| "baseCostFor preset n = knight preset"
| "baseCostFor preset b = bishop preset"
| "baseCostFor preset r = rook preset"
| "baseCostFor preset q = queen preset"
| "baseCostFor preset k = king preset"

text \<open>
  \<^verbatim>\<open>s.charCodeAt(i)\<close>: the code of the character at index \<open>i\<close>, and \<^verbatim>\<open>NaN\<close> past the end
  of the string. A value of type \<open>int option\<close> is a JavaScript number here, \<open>None\<close> being
  \<^verbatim>\<open>NaN\<close> (or \<^verbatim>\<open>undefined\<close> where a \<^verbatim>\<open>switch\<close> falls through).
\<close>

definition charCodeAt :: "string \<Rightarrow> nat \<Rightarrow> int option" where
  "charCodeAt s i = (if i < length s then Some (int (of_char (s ! i))) else None)"

text \<open>\<^verbatim>\<open>Math.abs(a - b)\<close>, \<^verbatim>\<open>a + b\<close>, \<^verbatim>\<open>Math.max(a, b)\<close> and \<^verbatim>\<open>a * c\<close>: \<^verbatim>\<open>NaN\<close> is contagious.\<close>

fun absDiff :: "int option \<Rightarrow> int option \<Rightarrow> int option" where
  "absDiff (Some a) (Some c) = Some \<bar>a - c\<bar>"
| "absDiff _ _ = None"

fun numAdd :: "int option \<Rightarrow> int option \<Rightarrow> int option" where
  "numAdd (Some a) (Some c) = Some (a + c)"
| "numAdd _ _ = None"

fun numMax :: "int option \<Rightarrow> int option \<Rightarrow> int option" where
  "numMax (Some a) (Some c) = Some (max a c)"
| "numMax _ _ = None"

definition moveDistance :: "PieceType \<Rightarrow> string \<Rightarrow> string \<Rightarrow> int option" where
  "moveDistance piece from to =
     (let dx = absDiff (charCodeAt to 0) (charCodeAt from 0);
          dy = absDiff (charCodeAt to 1) (charCodeAt from 1)
      in if piece = n then numAdd dx dy else numMax dx dy)"

text \<open>
  \<^verbatim>\<open>calculateCost\<close> switches on the cost mode's name; a name that is none of the three
  cases falls out of the \<^verbatim>\<open>switch\<close> and the function returns \<^verbatim>\<open>undefined\<close> (\<open>None\<close>).
\<close>

definition calculateCost ::
  "StepCostPreset \<Rightarrow> string \<Rightarrow> PieceType \<Rightarrow> string \<Rightarrow> string \<Rightarrow> bool \<Rightarrow> int option" where
  "calculateCost preset costMode piece from to capturingKing =
     (if costMode = ''baseDistance'' then
        map_option (\<lambda>d. baseCostFor preset piece + d * distanceCost preset)
          (moveDistance piece from to)
      else if costMode = ''distance'' then
        map_option (\<lambda>d. d * distanceCost preset) (moveDistance piece from to)
      else if costMode = ''fixed'' then
        Some (if capturingKing then baseCostFor preset piece * 2 else baseCostFor preset piece)
      else None)"

text \<open>
  A square in algebraic notation: a file letter \<open>a\<close>..\<open>h\<close> followed by a rank digit
  \<open>1\<close>..\<open>8\<close>. \<open>sq i j\<close> is the square at file index \<open>i\<close> and rank index \<open>j\<close> (both
  from 0).
\<close>

definition sq :: "nat \<Rightarrow> nat \<Rightarrow> string" where
  "sq i j = [char_of (97 + i), char_of (49 + j)]"

text \<open>The eight deltas (in files, in ranks) of a knight's move.\<close>

definition knightDeltas :: "(int \<times> int) list" where
  "knightDeltas = [(1, 2), (2, 1), (2, -1), (1, -2), (-1, -2), (-2, -1), (-2, 1), (-1, 2)]"

text \<open>The preset \<^verbatim>\<open>Normal\<close> with its default numbers.\<close>

definition presetNormal :: StepCostPreset where
  "presetNormal =
     \<lparr>pawn = 50, knight = 80, bishop = 80, rook = 100, queen = 150, king = 30,
      distanceCost = 10, name = ''Normal''\<rparr>"

section \<open>Errors\<close>

text \<open>
  A handler either returns or throws. \<open>HttpsError code message\<close> is the error a handler
  throws on purpose; \<open>Error message\<close> is any other exception (a plain \<^verbatim>\<open>Error\<close> of the
  handler's own code or of a library), which the callable wrapper reports to the client as
  an internal error.
\<close>

datatype code = unauthenticated | invalid_argument | not_found | failed_precondition
  | permission_denied

datatype error = HttpsError code string | Error string

text \<open>
  A number inside a template literal. The amounts here are integers, printed in decimal
  with a leading minus sign when negative.
\<close>

fun digits :: "nat \<Rightarrow> string" where
  "digits m = (if m < 10 then [''0123456789'' ! m]
               else digits (m div 10) @ [''0123456789'' ! (m mod 10)])"

declare digits.simps [simp del]

definition numStr :: "int \<Rightarrow> string" where
  "numStr i = (if i < 0 then CHR ''-'' # digits (nat (- i)) else digits (nat i))"

fun requireAuth :: "string option \<Rightarrow> error + string" where
  "requireAuth None = Inl (HttpsError unauthenticated ''Must be signed in'')"
| "requireAuth (Some uid) = Inr uid"

section \<open>The chess engine (chess.js)\<close>

text \<open>
  The move-legality oracle is the external library chess.js. The handlers use six of its
  operations, which the model takes as a parameter: the constructor from a FEN string
  (\<open>None\<close> when it throws on a string it does not accept), \<^verbatim>\<open>get\<close>, \<^verbatim>\<open>remove\<close>, \<^verbatim>\<open>put\<close>,
  \<^verbatim>\<open>move\<close> (\<open>None\<close> when it throws on an illegal move) and \<^verbatim>\<open>fen\<close>. The object is mutable
  in the source; here each operation returns the new object. The values that \<^verbatim>\<open>remove\<close>
  and \<^verbatim>\<open>put\<close> return are not used by the handlers.
\<close>

datatype Color = White | Black

datatype Piece = Piece (pcolor: Color) (ptype: PieceType)

record 'c Chess =
  chess_new :: "string \<Rightarrow> 'c option"
  chess_get :: "'c \<Rightarrow> string \<Rightarrow> Piece option"
  chess_remove :: "'c \<Rightarrow> string \<Rightarrow> 'c"
  chess_put :: "'c \<Rightarrow> Piece \<Rightarrow> string \<Rightarrow> 'c"
  chess_move :: "'c \<Rightarrow> string \<Rightarrow> string \<Rightarrow> string option \<Rightarrow> 'c option"
  chess_fen :: "'c \<Rightarrow> string"

section \<open>Strings\<close>

text \<open>\<^verbatim>\<open>s.split(' ')\<close> and \<^verbatim>\<open>parts.join(' ')\<close>.\<close>

fun split_space :: "string \<Rightarrow> string list" where
  "split_space [] = ['''']"
| "split_space (c # cs) =
     (if c = CHR '' '' then [] # split_space cs
      else (case split_space cs of w # ws \<Rightarrow> (c # w) # ws | [] \<Rightarrow> [c # []]))"

fun join_space :: "string list \<Rightarrow> string" where
  "join_space [] = []"
| "join_space [w] = w"
| "join_space (w # ws) = w @ CHR '' '' # join_space ws"

text \<open>
  \<^verbatim>\<open>if (fenParts[1] !== playerColor) fenParts[1] = playerColor\<close>. Writing index 1 of a
  one-element array extends it; \<^verbatim>\<open>split\<close> never returns an empty array.
\<close>

fun alignTurn :: "string list \<Rightarrow> string \<Rightarrow> string list" where
  "alignTurn (w # _ # ws) c = w # c # ws"
| "alignTurn [w] c = [w, c]"
| "alignTurn [] c = ['''', c]"

text \<open>\<^verbatim>\<open>toLowerCase\<close> on the ASCII letters.\<close>

definition toLowerChar :: "char \<Rightarrow> char" where
  "toLowerChar c = (let m = (of_char c :: nat) in if 65 \<le> m \<and> m \<le> 90 then char_of (m + 32) else c)"

definition toLowerCase :: "string \<Rightarrow> string" where
  "toLowerCase s = map toLowerChar s"

section \<open>Move processing (services/game.service.ts)\<close>

record MoveResult =
  newFen :: string
  cost :: "int option"
  moveRecord :: string

text \<open>
  The king-capture branch of \<^verbatim>\<open>validateAndApplyMove\<close>: the piece on \<open>from\<close> is read, the
  squares \<open>to\<close> and \<open>from\<close> are emptied and the piece is put on \<open>to\<close>. It returns the
  moved piece and the object after the three edits.
\<close>

definition applyKingCapture :: "'c Chess \<Rightarrow> string \<Rightarrow> string \<Rightarrow> string \<Rightarrow> error + Piece \<times> 'c" where
  "applyKingCapture chess gameFen from to =
     (case chess_new chess gameFen of
        None \<Rightarrow> Inl (Error ''Invalid FEN'')
      | Some c \<Rightarrow>
          (case chess_get chess c from of
             None \<Rightarrow> Inl (HttpsError invalid_argument (''No piece at '' @ from))
           | Some attacker \<Rightarrow>
               Inr (attacker,
                    chess_put chess (chess_remove chess (chess_remove chess c to) from)
                      attacker to)))"

text \<open>
  The promotion piece handed to the engine:
  \<^verbatim>\<open>promotion?.toLowerCase() ?? (isPromotion ? 'q' : undefined)\<close> with
  \<^verbatim>\<open>isPromotion = boardPiece.type === 'p' && (to[1] === '8' || to[1] === '1')\<close>.
\<close>

definition isPromotion :: "Piece \<Rightarrow> string \<Rightarrow> bool" where
  "isPromotion boardPiece to \<longleftrightarrow>
     ptype boardPiece = p \<and> 1 < length to \<and> (to ! 1 = CHR ''8'' \<or> to ! 1 = CHR ''1'')"

definition promotionPiece :: "string option \<Rightarrow> Piece \<Rightarrow> string \<Rightarrow> string option" where
  "promotionPiece promotion boardPiece to =
     (case promotion of
        Some pr \<Rightarrow> Some (toLowerCase pr)
      | None \<Rightarrow> (if isPromotion boardPiece to then Some ''q'' else None))"

text \<open>
  The ordinary branch: the side to move in the stored FEN is set to the caller's colour,
  then the move goes to the engine.
\<close>

definition applyNormalMove ::
  "'c Chess \<Rightarrow> OnlineGame \<Rightarrow> string \<Rightarrow> string \<Rightarrow> string \<Rightarrow> string option \<Rightarrow> error + Piece \<times> 'c" where
  "applyNormalMove chess game uid from to promotion =
     (let playerColor = (if uid = whitePlayerId game then ''w'' else ''b'');
          fenParts = alignTurn (split_space (fen game)) playerColor
      in case chess_new chess (join_space fenParts) of
           None \<Rightarrow> Inl (Error ''Invalid FEN'')
         | Some c \<Rightarrow>
             (case chess_get chess c from of
                None \<Rightarrow> Inl (HttpsError invalid_argument (''No piece at '' @ from))
              | Some boardPiece \<Rightarrow>
                  (case chess_move chess c from to (promotionPiece promotion boardPiece to) of
                     None \<Rightarrow> Inl (HttpsError invalid_argument
                                 (''Illegal move: '' @ from @ ''-'' @ to))
                   | Some c' \<Rightarrow> Inr (boardPiece, c'))))"

text \<open>
  \<^verbatim>\<open>validateAndApplyMove\<close>. The piece letter goes through \<^verbatim>\<open>toUpperCase\<close> and back through
  \<^verbatim>\<open>toLowerCase\<close> in the source, which is the identity on the six letters.
\<close>

definition validateAndApplyMove ::
  "'c Chess \<Rightarrow> OnlineGame \<Rightarrow> string \<Rightarrow> string \<Rightarrow> string \<Rightarrow> string option \<Rightarrow> bool
     \<Rightarrow> StepCostPreset \<Rightarrow> error + MoveResult" where
  "validateAndApplyMove chess game uid from to promotion capturingKing preset =
     (case (if capturingKing then applyKingCapture chess (fen game) from to
            else applyNormalMove chess game uid from to promotion) of
        Inl e \<Rightarrow> Inl e
      | Inr (piece, c) \<Rightarrow>
          Inr \<lparr>newFen = chess_fen chess c,
               cost = calculateCost preset (costModeName game) (ptype piece) from to capturingKing,
               moveRecord = from @ to @ (case promotion of None \<Rightarrow> [] | Some pr \<Rightarrow> pr)\<rparr>)"

section \<open>Presets from Remote Config (utils/presets.ts, config/config.service.ts)\<close>

text \<open>
  The evaluated Remote Config template. \<open>getPresetJson key\<close> is
  \<^verbatim>\<open>JSON.parse(config.getString(key))\<close> read as a preset's seven numbers, \<open>None\<close> when
  \<^verbatim>\<open>JSON.parse\<close> throws.
\<close>

record RemoteConfig =
  getNumber :: "string \<Rightarrow> int"
  getPresetJson :: "string \<Rightarrow> PresetValues option"

definition PRESET_CONFIG_KEYS :: "(string \<times> string) list" where
  "PRESET_CONFIG_KEYS =
     [(''Quick'', ''preset_quick''), (''Normal'', ''preset_normal''),
      (''Marathon'', ''preset_marathon'')]"

definition KNOWN_PRESET_NAMES :: "string list" where
  "KNOWN_PRESET_NAMES = map fst PRESET_CONFIG_KEYS"

definition getPreset :: "RemoteConfig \<Rightarrow> string \<Rightarrow> error + StepCostPreset" where
  "getPreset config nm =
     (case map_of PRESET_CONFIG_KEYS nm of
        None \<Rightarrow> Inl (Error (''Unknown preset: '' @ nm))
      | Some configKey \<Rightarrow>
          (case getPresetJson config configKey of
             None \<Rightarrow> Inl (Error ''JSON.parse'')
           | Some values \<Rightarrow> Inr (PresetValues.extend values (StepCostPreset.fields nm))))"

text \<open>The defaults of \<^verbatim>\<open>DEFAULT_CONFIG\<close>, which the fallback configuration serves.\<close>

definition DEFAULT_CONFIG :: RemoteConfig where
  "DEFAULT_CONFIG =
     \<lparr>getNumber = (\<lambda>key. if key = ''max_step_delta_per_call'' then 10000
                        else if key = ''max_steps_per_hour'' then 50000
                        else if key = ''max_move_history_length'' then 500 else 0),
      getPresetJson = (\<lambda>key.
        if key = ''preset_quick'' then
          Some \<lparr>pawn = 2, knight = 5, bishop = 5, rook = 7, queen = 10, king = 3,
                distanceCost = 1\<rparr>
        else if key = ''preset_normal'' then
          Some \<lparr>pawn = 50, knight = 80, bishop = 80, rook = 100, queen = 150, king = 30,
                distanceCost = 10\<rparr>
        else if key = ''preset_marathon'' then
          Some \<lparr>pawn = 200, knight = 350, bishop = 350, rook = 500, queen = 750, king = 100,
                distanceCost = 50\<rparr>
        else None)\<rparr>"

section \<open>The stores (repositories/)\<close>

text \<open>
  The Realtime Database paths the handlers touch: \<^verbatim>\<open>games/{gameId}\<close>,
  \<^verbatim>\<open>userActiveGame/{uid}\<close> and \<^verbatim>\<open>games/{gameId}/steps/{uid}/balance\<close>. The Firestore mirror
  of a game receives the same status updates as the Realtime Database record and is not
  kept apart here.
\<close>

record db =
  games :: "string \<rightharpoonup> OnlineGame"
  userActiveGame :: "string \<rightharpoonup> string"
  balance :: "string \<times> string \<rightharpoonup> int"

definition getGame :: "db \<Rightarrow> string \<Rightarrow> error + OnlineGame" where
  "getGame d gameId =
     (case games d gameId of
        None \<Rightarrow> Inl (HttpsError not_found (''Game '' @ gameId @ '' not found''))
      | Some game \<Rightarrow> Inr game)"

text \<open>\<^verbatim>\<open>updateGameState\<close> merges a partial record into the stored game.\<close>

definition updateGameState :: "string \<Rightarrow> (OnlineGame \<Rightarrow> OnlineGame) \<Rightarrow> db \<Rightarrow> db" where
  "updateGameState gameId updates d =
     (case games d gameId of
        None \<Rightarrow> d
      | Some game \<Rightarrow> d\<lparr>games := (games d)(gameId \<mapsto> updates game)\<rparr>)"

definition updateGameMove :: "string \<Rightarrow> string \<Rightarrow> string list \<Rightarrow> db \<Rightarrow> db" where
  "updateGameMove gameId fen' moveHistory' d =
     updateGameState gameId (\<lambda>game. game\<lparr>fen := fen', moveHistory := Some moveHistory'\<rparr>) d"

definition setUserActiveGame :: "string \<Rightarrow> string \<Rightarrow> db \<Rightarrow> db" where
  "setUserActiveGame uid gameId d = d\<lparr>userActiveGame := (userActiveGame d)(uid \<mapsto> gameId)\<rparr>"

definition clearUserActiveGames :: "string list \<Rightarrow> db \<Rightarrow> db" where
  "clearUserActiveGames uids d =
     d\<lparr>userActiveGame := fold (\<lambda>uid m. m(uid := None)) uids (userActiveGame d)\<rparr>"

definition assertNoActiveGame :: "db \<Rightarrow> string \<Rightarrow> error + unit" where
  "assertNoActiveGame d uid =
     (case userActiveGame d uid of
        Some _ \<Rightarrow> Inl (HttpsError failed_precondition
                    ''You already have an active game. Finish or resign it first.'')
      | None \<Rightarrow> Inr ())"

definition createGameRecord :: "string \<Rightarrow> OnlineGame \<Rightarrow> string \<Rightarrow> db \<Rightarrow> db" where
  "createGameRecord gameId game creatorUid d =
     d\<lparr>games := (games d)(gameId \<mapsto> game),
       userActiveGame := (userActiveGame d)(creatorUid \<mapsto> gameId)\<rparr>"

text \<open>repositories/step.repository.ts\<close>

definition getStepBalance :: "db \<Rightarrow> string \<Rightarrow> string \<Rightarrow> int" where
  "getStepBalance d gameId uid = (case balance d (gameId, uid) of None \<Rightarrow> 0 | Some v \<Rightarrow> v)"

definition setStepBalance :: "string \<Rightarrow> string \<Rightarrow> int \<Rightarrow> db \<Rightarrow> db" where
  "setStepBalance gameId uid v d = d\<lparr>balance := (balance d)((gameId, uid) \<mapsto> v)\<rparr>"

text \<open>
  \<^verbatim>\<open>atomicIncrementStepBalance\<close> runs as one database transaction: it returns the new
  value and the store holding it.
\<close>

definition atomicIncrementStepBalance :: "string \<Rightarrow> string \<Rightarrow> int \<Rightarrow> db \<Rightarrow> int \<times> db" where
  "atomicIncrementStepBalance gameId uid delta d =
     (let v = getStepBalance d gameId uid + delta
      in (v, d\<lparr>balance := (balance d)((gameId, uid) \<mapsto> v)\<rparr>))"

section \<open>The game handlers (functions/game.functions.ts)\<close>

definition INITIAL_FEN :: string where
  "INITIAL_FEN = ''rnbqkbnr/pppppppp/8/8/8/8/PPPPPPPP/RNBQKBNR w KQkq - 0 1''"

text \<open>
  A value is truthy in a JavaScript condition when it is neither \<^verbatim>\<open>null\<close>, nor
  \<^verbatim>\<open>undefined\<close>, nor the empty string.
\<close>

fun truthy :: "string option \<Rightarrow> bool" where
  "truthy None = False"
| "truthy (Some s) = (s \<noteq> [])"

definition isPlayer :: "string \<Rightarrow> OnlineGame \<Rightarrow> bool" where
  "isPlayer uid game \<longleftrightarrow> \<not> (uid \<noteq> whitePlayerId game \<and> Some uid \<noteq> blackPlayerId game)"

text \<open>
  \<^verbatim>\<open>createGame\<close>. The key that \<^verbatim>\<open>push()\<close> generates and the creation time are inputs of
  the model.
\<close>

definition createGame ::
  "string option \<Rightarrow> string \<Rightarrow> string \<Rightarrow> string \<Rightarrow> string \<Rightarrow> db \<Rightarrow> (error + string) \<times> db" where
  "createGame auth presetNm costModeNm gameId now d =
     (case requireAuth auth of
        Inl e \<Rightarrow> (Inl e, d)
      | Inr uid \<Rightarrow>
          if presetNm = [] \<or> costModeNm = [] then
            (Inl (HttpsError invalid_argument ''presetName and costModeName are required''), d)
          else if presetNm \<notin> set KNOWN_PRESET_NAMES then
            (Inl (HttpsError invalid_argument (''Unknown preset: '' @ presetNm)), d)
          else
            (case assertNoActiveGame d uid of
               Inl e \<Rightarrow> (Inl e, d)
             | Inr _ \<Rightarrow>
                 (Inr gameId,
                  createGameRecord gameId
                    \<lparr>id = gameId, whitePlayerId = uid, blackPlayerId = None, fen = INITIAL_FEN,
                     moveHistory = Some [], status = waiting, presetName = presetNm,
                     costModeName = costModeNm, createdAt = now, outcome = None,
                     winnerId = None\<rparr>
                    uid d)))"

text \<open>\<^verbatim>\<open>joinGame\<close>. \<open>isEmulator\<close> is \<^verbatim>\<open>process.env.FUNCTIONS_EMULATOR === 'true'\<close>.\<close>

definition joinGame :: "bool \<Rightarrow> string option \<Rightarrow> string \<Rightarrow> db \<Rightarrow> (error + unit) \<times> db" where
  "joinGame isEmulator auth gameId d =
     (case requireAuth auth of
        Inl e \<Rightarrow> (Inl e, d)
      | Inr uid \<Rightarrow>
          if gameId = [] then (Inl (HttpsError invalid_argument ''gameId is required''), d)
          else
            (case getGame d gameId of
               Inl e \<Rightarrow> (Inl e, d)
             | Inr game \<Rightarrow>
                 if blackPlayerId game \<noteq> None \<or> status game \<noteq> waiting then
                   (Inl (HttpsError failed_precondition ''Game is already full''), d)
                 else if \<not> isEmulator \<and> whitePlayerId game = uid then
                   (Inl (HttpsError failed_precondition ''Cannot join your own game''), d)
                 else
                   (case (if \<not> isEmulator \<or> whitePlayerId game \<noteq> uid
                          then assertNoActiveGame d uid else Inr ()) of
                      Inl e \<Rightarrow> (Inl e, d)
                    | Inr _ \<Rightarrow>
                        (Inr (),
                         setUserActiveGame uid gameId
                           (updateGameState gameId
                              (\<lambda>game. game\<lparr>blackPlayerId := Some uid, status := active\<rparr>) d)))))"

text \<open>
  The ledger part of \<^verbatim>\<open>makeMove\<close>: the comparison of the balance read with the cost, and
  the balance to write.
\<close>

definition insufficientSteps :: "int \<Rightarrow> int \<Rightarrow> error" where
  "insufficientSteps c bal =
     HttpsError failed_precondition
       (''Insufficient steps: need '' @ numStr c @ '', have '' @ numStr bal)"

definition checkBalance :: "int \<Rightarrow> int \<Rightarrow> error + int" where
  "checkBalance bal c = (if bal < c then Inl (insufficientSteps c bal) else Inr (bal - c))"

text \<open>\<^verbatim>\<open>game.moveHistory ?? []\<close>\<close>

definition historyOf :: "OnlineGame \<Rightarrow> string list" where
  "historyOf game = (case moveHistory game of None \<Rightarrow> [] | Some h \<Rightarrow> h)"

record MoveResponse =
  resp_fen :: string
  resp_moveHistory :: "string list"
  resp_cost :: int
  resp_newBalance :: int

text \<open>
  \<^verbatim>\<open>makeMove\<close>, as one call runs when no other call touches the store between its read
  of the game and its writes. The handler reaches the database three times; calls in
  flight together are interleavings of these three operations, which the section on
  calls in flight together defines and relates to this definition. When the cost is
  not a number (\<open>None\<close>), \<^verbatim>\<open>balance < cost\<close> is false and the handler goes on to its two
  writes with a new balance that is \<^verbatim>\<open>NaN\<close>: the game update is issued, and the balance
  write throws in the database client, which stores no \<^verbatim>\<open>NaN\<close>.
\<close>

definition makeMove ::
  "'c Chess \<Rightarrow> RemoteConfig \<Rightarrow> string option \<Rightarrow> string \<Rightarrow> string \<Rightarrow> string \<Rightarrow> string option
     \<Rightarrow> bool \<Rightarrow> db \<Rightarrow> (error + MoveResponse) \<times> db" where
  "makeMove chess config auth gameId from to promotion capturingKing d =
     (case requireAuth auth of
        Inl e \<Rightarrow> (Inl e, d)
      | Inr uid \<Rightarrow>
          if gameId = [] \<or> from = [] \<or> to = [] then
            (Inl (HttpsError invalid_argument ''gameId, from, and to are required''), d)
          else
            (case getGame d gameId of
               Inl e \<Rightarrow> (Inl e, d)
             | Inr game \<Rightarrow>
                 if status game \<noteq> active then
                   (Inl (HttpsError failed_precondition ''Game is not active''), d)
                 else if uid \<noteq> whitePlayerId game \<and> Some uid \<noteq> blackPlayerId game then
                   (Inl (HttpsError permission_denied ''You are not a player in this game''), d)
                 else
                   (case getPreset config (presetName game) of
                      Inl e \<Rightarrow> (Inl e, d)
                    | Inr preset \<Rightarrow>
                        (case validateAndApplyMove chess game uid from to promotion
                                capturingKing preset of
                           Inl e \<Rightarrow> (Inl e, d)
                         | Inr res \<Rightarrow>
                             (let bal = getStepBalance d gameId uid;
                                  newMoveHistory = historyOf game @ [moveRecord res]
                              in case cost res of
                                   None \<Rightarrow>
                                     (Inl (Error ''NaN''),
                                      updateGameMove gameId (newFen res) newMoveHistory d)
                                 | Some c \<Rightarrow>
                                     (case checkBalance bal c of
                                        Inl e \<Rightarrow> (Inl e, d)
                                      | Inr newBalance \<Rightarrow>
                                          (Inr \<lparr>resp_fen = newFen res,
                                                resp_moveHistory = newMoveHistory,
                                                resp_cost = c,
                                                resp_newBalance = newBalance\<rparr>,
                                           setStepBalance gameId uid newBalance
                                             (updateGameMove gameId (newFen res)
                                                newMoveHistory d))))))))"

text \<open>
  \<^verbatim>\<open>endGame\<close>. The request's \<open>outcome\<close> is one of the three values of its declared type,
  or missing (\<open>None\<close>).
\<close>

definition endGame :: "string option \<Rightarrow> string \<Rightarrow> GameOutcome option \<Rightarrow> db \<Rightarrow> (error + unit) \<times> db" where
  "endGame auth gameId outcm d =
     (case requireAuth auth of
        Inl e \<Rightarrow> (Inl e, d)
      | Inr uid \<Rightarrow>
          (case outcm of
             None \<Rightarrow> (Inl (HttpsError invalid_argument ''gameId and outcome are required''), d)
           | Some oc \<Rightarrow>
               if gameId = [] then
                 (Inl (HttpsError invalid_argument ''gameId and outcome are required''), d)
               else
               (case getGame d gameId of
                  Inl e \<Rightarrow> (Inl e, d)
                | Inr game \<Rightarrow>
                    if uid \<noteq> whitePlayerId game \<and> Some uid \<noteq> blackPlayerId game then
                      (Inl (HttpsError permission_denied ''You are not a player in this game''),
                       d)
                    else
                      (let finalStatus = (if oc = outcome_abandoned then abandoned else completed);
                           uidsToClean =
                             whitePlayerId game #
                               (if truthy (blackPlayerId game) then [the (blackPlayerId game)]
                                else []);
                           gameUpdate = (\<lambda>g.
                             let g' = g\<lparr>status := finalStatus, outcome := Some oc\<rparr>
                             in if oc = win then g'\<lparr>winnerId := Some uid\<rparr> else g')
                       in (Inr (),
                           clearUserActiveGames uidsToClean
                             (updateGameState gameId gameUpdate d))))))"

section \<open>Earning steps (functions/steps.functions.ts)\<close>

text \<open>\<^verbatim>\<open>submitStepDelta\<close>, for a \<open>delta\<close> that is an integer.\<close>

definition submitStepDelta ::
  "RemoteConfig \<Rightarrow> string option \<Rightarrow> string \<Rightarrow> int \<Rightarrow> db \<Rightarrow> (error + int) \<times> db" where
  "submitStepDelta config auth gameId delta d =
     (case requireAuth auth of
        Inl e \<Rightarrow> (Inl e, d)
      | Inr uid \<Rightarrow>
          if gameId = [] then (Inl (HttpsError invalid_argument ''gameId is required''), d)
          else if delta \<le> 0 then
            (Inl (HttpsError invalid_argument ''delta must be a positive integer''), d)
          else
            (case getGame d gameId of
               Inl e \<Rightarrow> (Inl e, d)
             | Inr game \<Rightarrow>
                 if uid \<noteq> whitePlayerId game \<and> Some uid \<noteq> blackPlayerId game then
                   (Inl (HttpsError permission_denied ''You are not a player in this game''), d)
                 else if status game \<noteq> active then
                   (Inl (HttpsError failed_precondition ''Game is not active''), d)
                 else
                   (let maxDelta = getNumber config ''max_step_delta_per_call''
                    in if delta > maxDelta then
                         (Inl (HttpsError invalid_argument
                                 (''delta exceeds maximum allowed per call ('' @ numStr maxDelta
                                    @ '')'')), d)
                       else
                         (case atomicIncrementStepBalance gameId uid delta d of
                            (newBalance, d') \<Rightarrow> (Inr newBalance, d')))))"

section \<open>Leaderboard (leaderboard.repository.ts, leaderboard.service.ts, leaderboard.functions.ts)\<close>

text \<open>
  The win, loss and draw counters of a \<^verbatim>\<open>leaderboard/{uid}\<close> document. An increment with
  \<^verbatim>\<open>merge: true\<close> creates what is missing, counting from 0.
\<close>

record Counters =
  wins :: int
  losses :: int
  draws :: int

type_synonym leaderboard = "string \<rightharpoonup> Counters"

definition counters :: "leaderboard \<Rightarrow> string \<Rightarrow> Counters" where
  "counters lb uid =
     (case lb uid of None \<Rightarrow> \<lparr>wins = 0, losses = 0, draws = 0\<rparr> | Some c \<Rightarrow> c)"

definition incrementWin :: "string \<Rightarrow> leaderboard \<Rightarrow> leaderboard" where
  "incrementWin uid lb = lb(uid \<mapsto> (counters lb uid)\<lparr>wins := wins (counters lb uid) + 1\<rparr>)"

definition incrementLoss :: "string \<Rightarrow> leaderboard \<Rightarrow> leaderboard" where
  "incrementLoss uid lb = lb(uid \<mapsto> (counters lb uid)\<lparr>losses := losses (counters lb uid) + 1\<rparr>)"

definition incrementDraw :: "string \<Rightarrow> leaderboard \<Rightarrow> leaderboard" where
  "incrementDraw uid lb = lb(uid \<mapsto> (counters lb uid)\<lparr>draws := draws (counters lb uid) + 1\<rparr>)"

definition applyGameResult :: "OnlineGame \<Rightarrow> leaderboard \<Rightarrow> leaderboard" where
  "applyGameResult game lb =
     (if \<not> truthy (blackPlayerId game) \<or> outcome game = Some outcome_abandoned
         \<or> outcome game = None then lb
      else if outcome game = Some win \<and> truthy (winnerId game) then
        (let loserId = (if the (winnerId game) = whitePlayerId game
                        then the (blackPlayerId game) else whitePlayerId game)
         in incrementLoss loserId (incrementWin (the (winnerId game)) lb))
      else if outcome game = Some draw then
        incrementDraw (the (blackPlayerId game)) (incrementDraw (whitePlayerId game) lb)
      else lb)"

text \<open>
  \<^verbatim>\<open>onGameCompleted\<close>, the reaction to an update of a game document, given the document
  before and after the update (\<open>None\<close> when the event carries no data).
\<close>

definition onGameCompleted ::
  "OnlineGame option \<Rightarrow> OnlineGame option \<Rightarrow> leaderboard \<Rightarrow> leaderboard" where
  "onGameCompleted before after lb =
     (case (before, after) of
        (Some bf, Some af) \<Rightarrow>
          if status bf = status af \<or> status af \<noteq> completed then lb
          else applyGameResult af lb
      | _ \<Rightarrow> lb)"

section \<open>A stand-in for the chess engine\<close>

text \<open>
  A small engine with the interface of \<open>Chess\<close>, for running the handlers on concrete
  positions. It keeps the piece placement as a list of occupied squares together with the
  remaining five FEN fields, reads and prints the placement field of a FEN string, and
  accepts a move when it is listed in \<open>legal\<close> and a piece stands on its origin. It
  stands for chess.js only on the positions and moves it is run on below.
\<close>

type_synonym position = "(string \<times> Piece) list \<times> string list"

fun split_on :: "char \<Rightarrow> string \<Rightarrow> string list" where
  "split_on x [] = ['''']"
| "split_on x (c # cs) =
     (if c = x then [] # split_on x cs
      else (case split_on x cs of w # ws \<Rightarrow> (c # w) # ws | [] \<Rightarrow> [c # []]))"

fun join_on :: "char \<Rightarrow> string list \<Rightarrow> string" where
  "join_on x [] = []"
| "join_on x [w] = w"
| "join_on x (w # ws) = w @ x # join_on x ws"

definition pieceLetters :: "(char \<times> Piece) list" where
  "pieceLetters =
     [(CHR ''P'', Piece White p), (CHR ''N'', Piece White n), (CHR ''B'', Piece White b),
      (CHR ''R'', Piece White r), (CHR ''Q'', Piece White q), (CHR ''K'', Piece White k),
      (CHR ''p'', Piece Black p), (CHR ''n'', Piece Black n), (CHR ''b'', Piece Black b),
      (CHR ''r'', Piece Black r), (CHR ''q'', Piece Black q), (CHR ''k'', Piece Black k)]"

definition letterOf :: "Piece \<Rightarrow> char" where
  "letterOf pc = (case find (\<lambda>x. snd x = pc) pieceLetters of Some x \<Rightarrow> fst x | None \<Rightarrow> CHR ''?'')"

definition gapDigits :: "(char \<times> nat) list" where
  "gapDigits =
     [(CHR ''1'', 1), (CHR ''2'', 2), (CHR ''3'', 3), (CHR ''4'', 4), (CHR ''5'', 5),
      (CHR ''6'', 6), (CHR ''7'', 7), (CHR ''8'', 8)]"

fun parseRank :: "string \<Rightarrow> string \<Rightarrow> char \<Rightarrow> (string \<times> Piece) list option" where
  "parseRank [] files rank = (if files = [] then Some [] else None)"
| "parseRank (c # cs) files rank =
     (case map_of gapDigits c of
        Some gap \<Rightarrow> if gap \<le> length files then parseRank cs (drop gap files) rank else None
      | None \<Rightarrow>
          (case map_of pieceLetters c of
             None \<Rightarrow> None
           | Some pc \<Rightarrow>
               (case files of
                  [] \<Rightarrow> None
                | file # files' \<Rightarrow>
                    map_option (\<lambda>xs. ([file, rank], pc) # xs) (parseRank cs files' rank))))"

fun parseRanks :: "string list \<Rightarrow> string \<Rightarrow> (string \<times> Piece) list option" where
  "parseRanks [] [] = Some []"
| "parseRanks (row # rows) (rank # ranks) =
     (case parseRank row ''abcdefgh'' rank of
        None \<Rightarrow> None
      | Some xs \<Rightarrow> map_option (\<lambda>ys. xs @ ys) (parseRanks rows ranks))"
| "parseRanks _ _ = None"

definition standin_new :: "string \<Rightarrow> position option" where
  "standin_new s =
     (case split_space s of
        placement # turn # rest \<Rightarrow>
          if length rest = 4 \<and> (turn = ''w'' \<or> turn = ''b'')
          then map_option (\<lambda>board. (board, turn # rest))
                 (parseRanks (split_on (CHR ''/'') placement) ''87654321'')
          else None
      | _ \<Rightarrow> None)"

definition gapStr :: "nat \<Rightarrow> string" where
  "gapStr gap = (if gap = 0 then [] else [''012345678'' ! gap])"

fun printRank :: "(string \<times> Piece) list \<Rightarrow> char \<Rightarrow> string \<Rightarrow> nat \<Rightarrow> string" where
  "printRank board rank [] gap = gapStr gap"
| "printRank board rank (file # files) gap =
     (case map_of board [file, rank] of
        None \<Rightarrow> printRank board rank files (Suc gap)
      | Some pc \<Rightarrow> gapStr gap @ letterOf pc # printRank board rank files 0)"

definition standin_fen :: "position \<Rightarrow> string" where
  "standin_fen pos =
     join_space
       (join_on (CHR ''/'') (map (\<lambda>rank. printRank (fst pos) rank ''abcdefgh'' 0) ''87654321'')
        # snd pos)"

definition isSquare :: "string \<Rightarrow> bool" where
  "isSquare s \<longleftrightarrow>
     (case s of [file, rank] \<Rightarrow> file \<in> set ''abcdefgh'' \<and> rank \<in> set ''12345678'' | _ \<Rightarrow> False)"

definition standin_remove :: "position \<Rightarrow> string \<Rightarrow> position" where
  "standin_remove pos s = (filter (\<lambda>x. fst x \<noteq> s) (fst pos), snd pos)"

definition standin_put :: "position \<Rightarrow> Piece \<Rightarrow> string \<Rightarrow> position" where
  "standin_put pos pc s =
     (if isSquare s then ((s, pc) # filter (\<lambda>x. fst x \<noteq> s) (fst pos), snd pos) else pos)"

definition promoted :: "Piece \<Rightarrow> string option \<Rightarrow> Piece" where
  "promoted pc promo =
     (case promo of
        None \<Rightarrow> pc
      | Some l \<Rightarrow> (case l of
                    [c] \<Rightarrow> (case map_of pieceLetters c of
                              Some x \<Rightarrow> Piece (pcolor pc) (ptype x)
                            | None \<Rightarrow> pc)
                  | _ \<Rightarrow> pc))"

definition standin_move ::
  "(string \<times> string \<times> string option) list \<Rightarrow> position \<Rightarrow> string \<Rightarrow> string \<Rightarrow> string option
     \<Rightarrow> position option" where
  "standin_move legal pos from to promo =
     (case map_of (fst pos) from of
        None \<Rightarrow> None
      | Some pc \<Rightarrow>
          if (from, to, promo) \<in> set legal then
            Some ((to, promoted pc promo)
                    # filter (\<lambda>x. fst x \<noteq> to) (filter (\<lambda>x. fst x \<noteq> from) (fst pos)),
                  (case snd pos of
                     turn # rest \<Rightarrow> (if turn = ''w'' then ''b'' else ''w'') # rest
                   | [] \<Rightarrow> []))
          else None)"

definition standin :: "(string \<times> string \<times> string option) list \<Rightarrow> position Chess" where
  "standin legal =
     \<lparr>chess_new = standin_new,
      chess_get = (\<lambda>pos s. map_of (fst pos) s),
      chess_remove = standin_remove,
      chess_put = standin_put,
      chess_move = standin_move legal,
      chess_fen = standin_fen\<rparr>"

text \<open>
  A game in progress between Alice (white) and Bob (black) in the position
  \<^verbatim>\<open>4k3/3P4/8/8/8/8/4P3/4K1N1\<close>, a store holding it with a given balance for Alice, and the
  moves the stand-in accepts there.
\<close>

definition fen0 :: string where
  "fen0 = ''4k3/3P4/8/8/8/8/4P3/4K1N1 w - - 0 1''"

definition legal0 :: "(string \<times> string \<times> string option) list" where
  "legal0 = [(''e2'', ''e4'', None), (''g1'', ''f3'', None), (''d7'', ''d8'', Some ''q'')]"

definition game0 :: OnlineGame where
  "game0 =
     \<lparr>id = ''g1'', whitePlayerId = ''alice'', blackPlayerId = Some ''bob'', fen = fen0,
      moveHistory = Some [''d2d4''], status = active, presetName = ''Normal'',
      costModeName = ''distance'', createdAt = ''2024-01-01T00:00:00.000Z'', outcome = None,
      winnerId = None\<rparr>"

definition pos0 :: position where
  "pos0 =
     ([(''e8'', Piece Black k), (''d7'', Piece White p), (''e2'', Piece White p),
       (''e1'', Piece White k), (''g1'', Piece White n)],
      [''w'', ''-'', ''-'', ''0'', ''1''])"

definition db0 :: "OnlineGame \<Rightarrow> int \<Rightarrow> db" where
  "db0 game bal =
     \<lparr>games = [''g1'' \<mapsto> game],
      userActiveGame = [''alice'' \<mapsto> ''g1'', ''bob'' \<mapsto> ''g1''],
      balance = [(''g1'', ''alice'') \<mapsto> bal]\<rparr>"

definition pos_e2e4 :: position where
  "pos_e2e4 =
     ([(''e4'', Piece White p), (''e8'', Piece Black k), (''d7'', Piece White p),
       (''e1'', Piece White k), (''g1'', Piece White n)],
      [''b'', ''-'', ''-'', ''0'', ''1''])"

definition pos_d7d8 :: position where
  "pos_d7d8 =
     ([(''d8'', Piece White q), (''e8'', Piece Black k), (''e2'', Piece White p),
       (''e1'', Piece White k), (''g1'', Piece White n)],
      [''b'', ''-'', ''-'', ''0'', ''1''])"

definition pos_d7e8 :: position where
  "pos_d7e8 =
     ([(''e8'', Piece White p), (''e2'', Piece White p), (''e1'', Piece White k),
       (''g1'', Piece White n)],
      [''w'', ''-'', ''-'', ''0'', ''1''])"

text \<open>
  The default configuration after an edit of one preset in the console: \<open>retuned key v\<close>
  holds the numbers \<open>v\<close> under \<open>key\<close> and the defaults elsewhere.
\<close>

definition retuned :: "string \<Rightarrow> PresetValues \<Rightarrow> RemoteConfig" where
  "retuned key v =
     DEFAULT_CONFIG\<lparr>getPresetJson := (getPresetJson DEFAULT_CONFIG)(key \<mapsto> v)\<rparr>"

definition dearNormal :: PresetValues where
  "dearNormal =
     \<lparr>pawn = 50, knight = 80, bishop = 80, rook = 100, queen = 150, king = 30,
      distanceCost = 20\<rparr>"

text \<open>
  The game of Alice and Bob after it was abandoned, and after Alice won it.
\<close>

definition gameAbandoned :: OnlineGame where
  "gameAbandoned = game0\<lparr>status := abandoned, outcome := Some outcome_abandoned\<rparr>"

definition gameWon :: OnlineGame where
  "gameWon = game0\<lparr>status := completed, outcome := Some win, winnerId := Some ''alice''\<rparr>"

section \<open>Concurrent calls on one balance\<close>

text \<open>
  The handlers run concurrently, and every \<^verbatim>\<open>await\<close> on the database is a point where
  other calls may run. The ledger part of \<^verbatim>\<open>makeMove\<close> touches the balance twice: it
  reads it (\<^verbatim>\<open>getStepBalance\<close>), compares it with the cost, and later writes the
  difference (\<^verbatim>\<open>setStepBalance\<close>). \<^verbatim>\<open>submitStepDelta\<close> touches it once, inside a
  transaction (\<^verbatim>\<open>atomicIncrementStepBalance\<close>). A call is its operation together with
  how far it has come; a schedule names, step by step, the call that performs its next
  database operation.
\<close>

datatype ledger_op = Spend int | Earn int

datatype progress = NotStarted | BalanceRead int | Done bool

fun stepCall :: "string \<Rightarrow> string \<Rightarrow> ledger_op \<times> progress \<Rightarrow> db \<Rightarrow> (ledger_op \<times> progress) \<times> db" where
  "stepCall gameId uid (Spend c, NotStarted) d =
     (case checkBalance (getStepBalance d gameId uid) c of
        Inl _ \<Rightarrow> ((Spend c, Done False), d)
      | Inr newBalance \<Rightarrow> ((Spend c, BalanceRead newBalance), d))"
| "stepCall gameId uid (Spend c, BalanceRead newBalance) d =
     ((Spend c, Done True), setStepBalance gameId uid newBalance d)"
| "stepCall gameId uid (Earn delta, NotStarted) d =
     ((Earn delta, Done True), snd (atomicIncrementStepBalance gameId uid delta d))"
| "stepCall gameId uid call d = (call, d)"

fun run :: "string \<Rightarrow> string \<Rightarrow> nat list \<Rightarrow> (ledger_op \<times> progress) list \<times> db
    \<Rightarrow> (ledger_op \<times> progress) list \<times> db" where
  "run gameId uid [] state = state"
| "run gameId uid (i # schedule) (calls, d) =
     (if i < length calls then
        (case stepCall gameId uid (calls ! i) d of
           (call', d') \<Rightarrow> run gameId uid schedule (calls[i := call'], d'))
      else run gameId uid schedule (calls, d))"

text \<open>The sums of the costs of the spends, and of the deltas of the earns, that succeeded.\<close>

fun spent :: "(ledger_op \<times> progress) list \<Rightarrow> int" where
  "spent [] = 0"
| "spent ((Spend c, Done True) # calls) = c + spent calls"
| "spent (_ # calls) = spent calls"

fun earned :: "(ledger_op \<times> progress) list \<Rightarrow> int" where
  "earned [] = 0"
| "earned ((Earn delta, Done True) # calls) = delta + earned calls"
| "earned (_ # calls) = earned calls"

section \<open>Calls of makeMove in flight together\<close>

text \<open>
  \<^verbatim>\<open>makeMove\<close> touches the database three times, with an \<^verbatim>\<open>await\<close> before each: it reads
  the game (\<^verbatim>\<open>getGame\<close>), it reads the balance (\<^verbatim>\<open>getStepBalance\<close>), and it issues its two
  writes together (\<^verbatim>\<open>updateGameMove\<close> and \<^verbatim>\<open>setStepBalance\<close>). Everything else runs in the
  handler, on what was read: the checks of status and caller, the preset, the move and
  its cost after the first read, the comparison with the balance and the new history and
  balance after the second. Other calls may run between the three. \<open>moveProgress\<close> is
  how far a call has come and what it holds in its local variables; \<open>stepMove\<close> performs
  its next database operation and the handler code up to the following one.
\<close>

record MoveRequest =
  req_auth :: "string option"
  req_gameId :: string
  req_from :: string
  req_to :: string
  req_promotion :: "string option"
  req_capturingKing :: bool

datatype moveProgress =
    Requested
  | GameRead string OnlineGame MoveResult
  | WritesReady string string "string list" "(int \<times> int) option"
  | Returned "error + MoveResponse"

text \<open>
  The first operation: the read of the game, and the handler code of lines 133 to 159.
\<close>

definition readGameAndValidate :: "'c Chess \<Rightarrow> RemoteConfig \<Rightarrow> MoveRequest \<Rightarrow> db \<Rightarrow> moveProgress" where
  "readGameAndValidate chess config req d =
     (case requireAuth (req_auth req) of
        Inl e \<Rightarrow> Returned (Inl e)
      | Inr uid \<Rightarrow>
          if req_gameId req = [] \<or> req_from req = [] \<or> req_to req = [] then
            Returned (Inl (HttpsError invalid_argument ''gameId, from, and to are required''))
          else
            (case getGame d (req_gameId req) of
               Inl e \<Rightarrow> Returned (Inl e)
             | Inr game \<Rightarrow>
                 if status game \<noteq> active then
                   Returned (Inl (HttpsError failed_precondition ''Game is not active''))
                 else if uid \<noteq> whitePlayerId game \<and> Some uid \<noteq> blackPlayerId game then
                   Returned (Inl (HttpsError permission_denied
                                    ''You are not a player in this game''))
                 else
                   (case getPreset config (presetName game) of
                      Inl e \<Rightarrow> Returned (Inl e)
                    | Inr preset \<Rightarrow>
                        (case validateAndApplyMove chess game uid (req_from req) (req_to req)
                                (req_promotion req) (req_capturingKing req) preset of
                           Inl e \<Rightarrow> Returned (Inl e)
                         | Inr res \<Rightarrow> GameRead uid game res))))"

text \<open>
  The second operation: the read of the balance, and the handler code of lines 162 to
  170, on the game as the first operation read it. \<open>WritesReady\<close> holds the caller, the
  new board, the new history, and the cost with the new balance (\<open>None\<close> when the cost is
  not a number).
\<close>

definition readBalanceAndCheck :: "MoveRequest \<Rightarrow> string \<Rightarrow> OnlineGame \<Rightarrow> MoveResult \<Rightarrow> db \<Rightarrow> moveProgress" where
  "readBalanceAndCheck req uid game res d =
     (let bal = getStepBalance d (req_gameId req) uid;
          newMoveHistory = historyOf game @ [moveRecord res]
      in case cost res of
           None \<Rightarrow> WritesReady uid (newFen res) newMoveHistory None
         | Some c \<Rightarrow>
             (case checkBalance bal c of
                Inl e \<Rightarrow> Returned (Inl e)
              | Inr newBalance \<Rightarrow>
                  WritesReady uid (newFen res) newMoveHistory (Some (c, newBalance))))"

text \<open>The third operation: the two writes of lines 172 to 175, and the return.\<close>

definition commitMove ::
  "MoveRequest \<Rightarrow> string \<Rightarrow> string \<Rightarrow> string list \<Rightarrow> (int \<times> int) option \<Rightarrow> db \<Rightarrow> moveProgress \<times> db" where
  "commitMove req uid fen' moveHistory' priced d =
     (case priced of
        None \<Rightarrow>
          (Returned (Inl (Error ''NaN'')), updateGameMove (req_gameId req) fen' moveHistory' d)
      | Some (c, newBalance) \<Rightarrow>
          (Returned (Inr \<lparr>resp_fen = fen', resp_moveHistory = moveHistory', resp_cost = c,
                          resp_newBalance = newBalance\<rparr>),
           setStepBalance (req_gameId req) uid newBalance
             (updateGameMove (req_gameId req) fen' moveHistory' d)))"

fun stepMove :: "'c Chess \<Rightarrow> RemoteConfig \<Rightarrow> MoveRequest \<Rightarrow> moveProgress \<Rightarrow> db \<Rightarrow> moveProgress \<times> db" where
  "stepMove chess config req Requested d = (readGameAndValidate chess config req d, d)"
| "stepMove chess config req (GameRead uid game res) d = (readBalanceAndCheck req uid game res d, d)"
| "stepMove chess config req (WritesReady uid fen' moveHistory' priced) d =
     commitMove req uid fen' moveHistory' priced d"
| "stepMove chess config req (Returned result) d = (Returned result, d)"

text \<open>
  A schedule names, step by step, the call that performs its next operation.
\<close>

fun runMoves :: "'c Chess \<Rightarrow> RemoteConfig \<Rightarrow> nat list \<Rightarrow> (MoveRequest \<times> moveProgress) list \<times> db
    \<Rightarrow> (MoveRequest \<times> moveProgress) list \<times> db" where
  "runMoves chess config [] state = state"
| "runMoves chess config (i # schedule) (calls, d) =
     (if i < length calls then
        (case stepMove chess config (fst (calls ! i)) (snd (calls ! i)) d of
           (progress', d') \<Rightarrow>
             runMoves chess config schedule (calls[i := (fst (calls ! i), progress')], d'))
      else runMoves chess config schedule (calls, d))"

text \<open>
  Alice's requests for the pawn move e2 to e4 and for the knight move g1 to f3 in game
  \<open>g1\<close>, and the position after the knight move.
\<close>

definition req_e2e4 :: MoveRequest where
  "req_e2e4 =
     \<lparr>req_auth = Some ''alice'', req_gameId = ''g1'', req_from = ''e2'', req_to = ''e4'',
      req_promotion = None, req_capturingKing = False\<rparr>"

definition req_g1f3 :: MoveRequest where
  "req_g1f3 =
     \<lparr>req_auth = Some ''alice'', req_gameId = ''g1'', req_from = ''g1'', req_to = ''f3'',
      req_promotion = None, req_capturingKing = False\<rparr>"

definition pos_g1f3 :: position where
  "pos_g1f3 =
     ([(''f3'', Piece White n), (''e8'', Piece Black k), (''d7'', Piece White p),
       (''e2'', Piece White p), (''e1'', Piece White k)],
      [''b'', ''-'', ''-'', ''0'', ''1''])"

section \<open>What the handlers leave of a game's preset\<close>

text \<open>
  \<open>keepsPreset d d'\<close>: every game stored in \<open>d\<close> is still stored in \<open>d'\<close>, under the same
  id, with the preset name and the cost mode name it had.
\<close>

definition keepsPreset :: "db \<Rightarrow> db \<Rightarrow> bool" where
  "keepsPreset d d' \<longleftrightarrow>
     (\<forall>gameId game. games d gameId = Some game \<longrightarrow>
        (\<exists>game'. games d' gameId = Some game'
           \<and> presetName game' = presetName game \<and> costModeName game' = costModeName game))"

section \<open>Properties of the cost model\<close>

lemma charCodeAt_sq:
  assumes "i < 8" "j < 8"
  shows "charCodeAt (sq i j) 0 = Some (97 + int i)" "charCodeAt (sq i j) (Suc 0) = Some (49 + int j)"
  using assms by (simp_all add: charCodeAt_def sq_def)

lemma moveDistance_sq:
  assumes "i < 8" "j < 8" "i' < 8" "j' < 8"
  shows "moveDistance piece (sq i j) (sq i' j') =
           Some (if piece = n then \<bar>int i' - int i\<bar> + \<bar>int j' - int j\<bar>
                 else max \<bar>int i' - int i\<bar> \<bar>int j' - int j\<bar>)"
  using assms by (simp add: moveDistance_def charCodeAt_sq Let_def)

text \<open>
  Claim C9. The distance of a move is the Manhattan distance for a knight, which is 3 on
  each of the eight knight deltas, and the Chebyshev distance for every other piece. In
  mode \<^verbatim>\<open>distance\<close> with a distance multiplier of 10 the pawn move e2 to e4 costs 20 and
  the knight move g1 to f3 costs 30, whatever the preset's base costs are.
\<close>

theorem distance_metric_and_distance_mode:
  assumes "i < 8" "j < 8" "i' < 8" "j' < 8"
  shows "moveDistance n (sq i j) (sq i' j') = Some (\<bar>int i' - int i\<bar> + \<bar>int j' - int j\<bar>)
       \<and> (piece \<noteq> n \<longrightarrow>
            moveDistance piece (sq i j) (sq i' j') = Some (max \<bar>int i' - int i\<bar> \<bar>int j' - int j\<bar>))
       \<and> ((int i' - int i, int j' - int j) \<in> set knightDeltas \<longrightarrow>
            moveDistance n (sq i j) (sq i' j') = Some 3)
       \<and> (distanceCost preset = 10 \<longrightarrow>
            calculateCost preset ''distance'' p ''e2'' ''e4'' capturingKing = Some 20
            \<and> calculateCost preset ''distance'' n ''g1'' ''f3'' capturingKing = Some 30)"
proof -
  have knight: "moveDistance n (sq i j) (sq i' j') = Some (\<bar>int i' - int i\<bar> + \<bar>int j' - int j\<bar>)"
    using assms by (simp add: moveDistance_sq)
  have other: "piece \<noteq> n \<Longrightarrow>
      moveDistance piece (sq i j) (sq i' j') = Some (max \<bar>int i' - int i\<bar> \<bar>int j' - int j\<bar>)"
    using assms by (simp add: moveDistance_sq)
  have three: "(int i' - int i, int j' - int j) \<in> set knightDeltas \<Longrightarrow>
      \<bar>int i' - int i\<bar> + \<bar>int j' - int j\<bar> = 3"
    by (auto simp: knightDeltas_def)
  have e2e4: "moveDistance p ''e2'' ''e4'' = Some 2"
    by (simp add: moveDistance_def charCodeAt_def)
  have g1f3: "moveDistance n ''g1'' ''f3'' = Some 3"
    by (simp add: moveDistance_def charCodeAt_def)
  show ?thesis
    using knight other three by (simp add: calculateCost_def e2e4 g1f3)
qed

theorem distance_metric_and_distance_mode_witness:
  "moveDistance n (sq 6 0) (sq 5 2) = Some 3
   \<and> moveDistance q (sq 6 0) (sq 5 2) = Some 2
   \<and> calculateCost presetNormal ''distance'' p ''e2'' ''e4'' False = Some 20
   \<and> calculateCost presetNormal ''distance'' n ''g1'' ''f3'' False = Some 30"
  using distance_metric_and_distance_mode [of 6 0 5 2 q presetNormal False]
  by (simp add: knightDeltas_def presetNormal_def)

section \<open>Running the handlers on the stand-in\<close>

lemma numStr_values:
  "numStr 10 = ''10''" "numStr 20 = ''20''" "numStr 40 = ''40''" "numStr 60 = ''60''"
  by (simp_all add: numStr_def digits.simps)

lemma standin_new_fen0: "standin_new fen0 = Some pos0"
  by (simp add: standin_new_def fen0_def pos0_def gapDigits_def pieceLetters_def)

lemma alignTurn_fen0: "join_space (alignTurn (split_space fen0) ''w'') = fen0"
  by (simp add: fen0_def)

lemma getPreset_Normal: "getPreset DEFAULT_CONFIG ''Normal'' = Inr presetNormal"
  by (simp add: getPreset_def PRESET_CONFIG_KEYS_def DEFAULT_CONFIG_def presetNormal_def
      PresetValues.extend_def StepCostPreset.fields_def)

lemma standin_get: "chess_get (standin legal) pos s = map_of (fst pos) s"
  by (simp add: standin_def)

lemma standin_sel:
  "chess_new (standin legal) = standin_new"
  "chess_fen (standin legal) = standin_fen"
  "chess_move (standin legal) = standin_move legal"
  "chess_put (standin legal) = standin_put"
  "chess_remove (standin legal) = standin_remove"
  by (simp_all add: standin_def)

lemma applyNormalMove_e2e4:
  "fen game = fen0 \<Longrightarrow> whitePlayerId game = ''alice'' \<Longrightarrow>
   applyNormalMove (standin legal0) game ''alice'' ''e2'' ''e4'' None = Inr (Piece White p, pos_e2e4)"
proof -
  assume g: "fen game = fen0" "whitePlayerId game = ''alice''"
  have pr: "promotionPiece None (Piece White p) ''e4'' = None"
    by (simp add: promotionPiece_def isPromotion_def)
  have mv: "standin_move legal0 pos0 ''e2'' ''e4'' None = Some pos_e2e4"
    by (simp add: standin_move_def pos0_def legal0_def promoted_def pos_e2e4_def)
  have gt: "map_of (fst pos0) ''e2'' = Some (Piece White p)"
    by (simp add: pos0_def)
  show ?thesis
    by (simp add: applyNormalMove_def g alignTurn_fen0 standin_sel standin_get standin_new_fen0
        gt pr mv)
qed

lemma standin_fen_e2e4: "standin_fen pos_e2e4 = ''4k3/3P4/8/8/4P3/8/8/4K1N1 b - - 0 1''"
  by (simp add: standin_fen_def gapStr_def letterOf_def pieceLetters_def pos_e2e4_def)

lemma moveDistance_e2e4: "moveDistance p ''e2'' ''e4'' = Some 2"
  by (simp add: moveDistance_def charCodeAt_def)

lemma validateAndApplyMove_e2e4:
  assumes "fen game = fen0" "whitePlayerId game = ''alice''" "costModeName game = ''distance''"
  shows "validateAndApplyMove (standin legal0) game ''alice'' ''e2'' ''e4'' None False preset =
     Inr \<lparr>newFen = ''4k3/3P4/8/8/4P3/8/8/4K1N1 b - - 0 1'',
          cost = Some (2 * distanceCost preset), moveRecord = ''e2e4''\<rparr>"
  using assms
  by (simp add: validateAndApplyMove_def applyNormalMove_e2e4 standin_sel standin_fen_e2e4
      calculateCost_def moveDistance_e2e4)

lemma game0_fields:
  "fen game0 = fen0" "whitePlayerId game0 = ''alice''" "blackPlayerId game0 = Some ''bob''"
  "status game0 = active" "presetName game0 = ''Normal''" "costModeName game0 = ''distance''"
  "moveHistory game0 = Some [''d2d4'']" "outcome game0 = None" "winnerId game0 = None"
  by (simp_all add: game0_def)

lemma db0_fields:
  "games (db0 game bal) ''g1'' = Some game"
  "getStepBalance (db0 game bal) ''g1'' ''alice'' = bal"
  by (simp_all add: db0_def getStepBalance_def)

section \<open>A move that has a price\<close>

text \<open>
  When the game is active, the caller one of its players, the preset resolved and the move
  applied with a cost that is a number, what is left of \<^verbatim>\<open>makeMove\<close> is the comparison of
  the balance with the cost and the two writes.
\<close>

lemma makeMove_priced:
  assumes "games d gameId = Some game" "status game = active" "isPlayer uid game"
    and "gameId \<noteq> []" "from \<noteq> []" "to \<noteq> []"
    and "getPreset config (presetName game) = Inr preset"
    and "validateAndApplyMove chess game uid from to promotion capturingKing preset = Inr res"
    and "cost res = Some c"
  shows "makeMove chess config (Some uid) gameId from to promotion capturingKing d =
      (case checkBalance (getStepBalance d gameId uid) c of
         Inl e \<Rightarrow> (Inl e, d)
       | Inr newBalance \<Rightarrow>
           (Inr \<lparr>resp_fen = newFen res, resp_moveHistory = historyOf game @ [moveRecord res],
                 resp_cost = c, resp_newBalance = newBalance\<rparr>,
            setStepBalance gameId uid newBalance
              (updateGameMove gameId (newFen res) (historyOf game @ [moveRecord res]) d)))"
proof -
  have g: "getGame d gameId = Inr game"
    using assms(1) by (simp add: getGame_def)
  have pl: "\<not> (uid \<noteq> whitePlayerId game \<and> Some uid \<noteq> blackPlayerId game)"
    using assms(3) by (simp add: isPlayer_def)
  show ?thesis
    unfolding makeMove_def using assms(4-6) by (simp add: pl g assms(2,7,8,9) Let_def)
qed

section \<open>Insufficient balance\<close>

text \<open>
  Claim C1. A move by a player of an active game whose cost exceeds the player's balance
  in that game fails with a failed-precondition error that names the cost and the
  balance, and leaves the store as it was; the stored game changes only when the balance
  covers the cost, and the balance is then reduced by the cost.
\<close>

theorem makeMove_insufficient_balance:
  assumes game: "games d gameId = Some game"
    and act: "status game = active"
    and player: "isPlayer uid game"
    and args: "gameId \<noteq> []" "from \<noteq> []" "to \<noteq> []"
    and preset: "getPreset config (presetName game) = Inr preset"
    and res: "validateAndApplyMove chess game uid from to promotion capturingKing preset = Inr res"
    and c: "cost res = Some c"
  shows "(getStepBalance d gameId uid < c \<longrightarrow>
            makeMove chess config (Some uid) gameId from to promotion capturingKing d =
              (Inl (HttpsError failed_precondition
                      (''Insufficient steps: need '' @ numStr c @ '', have ''
                         @ numStr (getStepBalance d gameId uid))),
               d))
       \<and> (games (snd (makeMove chess config (Some uid) gameId from to promotion capturingKing d))
             \<noteq> games d \<longrightarrow>
            c \<le> getStepBalance d gameId uid
            \<and> getStepBalance
                 (snd (makeMove chess config (Some uid) gameId from to promotion capturingKing d))
                 gameId uid = getStepBalance d gameId uid - c)"
proof -
  let ?bal = "getStepBalance d gameId uid"
  note priced = makeMove_priced [OF game act player args preset res c]
  have written: "getStepBalance (setStepBalance gameId uid v d') gameId uid = v" for v d'
    by (simp add: getStepBalance_def setStepBalance_def)
  show ?thesis
  proof (cases "?bal < c")
    case True
    then show ?thesis
      by (simp add: priced checkBalance_def insufficientSteps_def)
  next
    case False
    then show ?thesis
      by (simp add: priced checkBalance_def written)
  qed
qed

theorem makeMove_insufficient_balance_witness:
  "makeMove (standin legal0) DEFAULT_CONFIG (Some ''alice'') ''g1'' ''e2'' ''e4'' None False
     (db0 game0 10) =
   (Inl (HttpsError failed_precondition ''Insufficient steps: need 20, have 10''), db0 game0 10)"
proof -
  have res: "validateAndApplyMove (standin legal0) game0 ''alice'' ''e2'' ''e4'' None False
      presetNormal =
      Inr \<lparr>newFen = ''4k3/3P4/8/8/4P3/8/8/4K1N1 b - - 0 1'', cost = Some 20,
           moveRecord = ''e2e4''\<rparr>"
    by (simp add: validateAndApplyMove_e2e4 game0_fields presetNormal_def)
  have pl: "isPlayer ''alice'' game0"
    by (simp add: isPlayer_def game0_fields)
  have pre: "getPreset DEFAULT_CONFIG (presetName game0) = Inr presetNormal"
    by (simp add: game0_fields getPreset_Normal)
  show ?thesis
    using makeMove_insufficient_balance [of "db0 game0 10" "''g1''" game0 "''alice''" "''e2''"
        "''e4''" DEFAULT_CONFIG presetNormal "standin legal0" None False _ 20,
        OF db0_fields(1) game0_fields(4) pl _ _ _ pre res]
    by (simp add: db0_fields numStr_values)
qed

section \<open>The move record\<close>

lemma makeMove_e2e4_paid:
  "makeMove (standin legal0) DEFAULT_CONFIG (Some ''alice'') ''g1'' ''e2'' ''e4'' None False
     (db0 game0 40) =
   (Inr \<lparr>resp_fen = ''4k3/3P4/8/8/4P3/8/8/4K1N1 b - - 0 1'',
         resp_moveHistory = [''d2d4'', ''e2e4''], resp_cost = 20, resp_newBalance = 20\<rparr>,
    setStepBalance ''g1'' ''alice'' 20
      (updateGameMove ''g1'' ''4k3/3P4/8/8/4P3/8/8/4K1N1 b - - 0 1'' [''d2d4'', ''e2e4'']
         (db0 game0 40)))"
proof -
  have res: "validateAndApplyMove (standin legal0) game0 ''alice'' ''e2'' ''e4'' None False
      presetNormal =
      Inr \<lparr>newFen = ''4k3/3P4/8/8/4P3/8/8/4K1N1 b - - 0 1'', cost = Some 20,
           moveRecord = ''e2e4''\<rparr>"
    by (simp add: validateAndApplyMove_e2e4 game0_fields presetNormal_def)
  have pl: "isPlayer ''alice'' game0"
    by (simp add: isPlayer_def game0_fields)
  have pre: "getPreset DEFAULT_CONFIG (presetName game0) = Inr presetNormal"
    by (simp add: game0_fields getPreset_Normal)
  show ?thesis
    using makeMove_priced [of "db0 game0 40" "''g1''" game0 "''alice''" "''e2''"
        "''e4''" DEFAULT_CONFIG presetNormal "standin legal0" None False _ 20,
        OF db0_fields(1) game0_fields(4) pl _ _ _ pre res]
    by (simp add: db0_fields checkBalance_def historyOf_def game0_fields)
qed

text \<open>
  A call that runs alone appends its record: when \<^verbatim>\<open>makeMove\<close> succeeds on the store it
  read, the stored move sequence is the one it read followed by one token, the origin, the
  destination and the promotion letter as the caller supplied it; the game's preset
  name, cost mode, status and player ids, and every other stored game, stay as they were.
\<close>

lemma makeMove_alone_appends_move_record:
  assumes run: "makeMove chess config auth gameId from to promotion capturingKing d = (Inr resp, d')"
    and game: "games d gameId = Some game"
  shows "\<exists>game'. games d' gameId = Some game'
           \<and> historyOf game' =
               historyOf game @ [from @ to @ (case promotion of None \<Rightarrow> [] | Some pr \<Rightarrow> pr)]
           \<and> (\<forall>i < length (historyOf game). historyOf game' ! i = historyOf game ! i)
           \<and> resp_moveHistory resp = historyOf game'
           \<and> presetName game' = presetName game \<and> costModeName game' = costModeName game
           \<and> status game' = status game
           \<and> whitePlayerId game' = whitePlayerId game \<and> blackPlayerId game' = blackPlayerId game
           \<and> (\<forall>other. other \<noteq> gameId \<longrightarrow> games d' other = games d other)"
proof -
  let ?token = "from @ to @ (case promotion of None \<Rightarrow> [] | Some pr \<Rightarrow> pr)"
  obtain uid where auth: "auth = Some uid"
    using run by (cases auth) (simp_all add: makeMove_def)
  have g: "getGame d gameId = Inr game"
    using game by (simp add: getGame_def)
  from run obtain preset res c where
    res: "validateAndApplyMove chess game uid from to promotion capturingKing preset = Inr res"
    and c: "cost res = Some c"
    and out: "resp = \<lparr>resp_fen = newFen res, resp_moveHistory = historyOf game @ [moveRecord res],
                 resp_cost = c, resp_newBalance = getStepBalance d gameId uid - c\<rparr>"
             "d' = setStepBalance gameId uid (getStepBalance d gameId uid - c)
                (updateGameMove gameId (newFen res) (historyOf game @ [moveRecord res]) d)"
    unfolding makeMove_def auth
    by (auto simp: g Let_def checkBalance_def split: if_splits sum.splits option.splits)
  have token: "moveRecord res = ?token"
    using res by (auto simp: validateAndApplyMove_def split: sum.splits if_splits)
  let ?game' = "game\<lparr>fen := newFen res, moveHistory := Some (historyOf game @ [?token])\<rparr>"
  have stored: "games d' gameId = Some ?game'"
    by (simp add: out(2) setStepBalance_def updateGameMove_def updateGameState_def game token)
  have others: "\<forall>other. other \<noteq> gameId \<longrightarrow> games d' other = games d other"
    by (simp add: out(2) setStepBalance_def updateGameMove_def updateGameState_def game)
  have hist: "historyOf ?game' = historyOf game @ [?token]"
    by (simp add: historyOf_def)
  have earlier: "\<forall>i < length (historyOf game). historyOf ?game' ! i = historyOf game ! i"
    by (simp add: hist nth_append)
  have resp: "resp_moveHistory resp = historyOf ?game'"
    by (simp add: out(1) hist token)
  show ?thesis
    using stored hist earlier resp others by simp
qed

lemma makeMove_alone_appends_move_record_e2e4:
  "\<exists>game'. games (setStepBalance ''g1'' ''alice'' 20
      (updateGameMove ''g1'' ''4k3/3P4/8/8/4P3/8/8/4K1N1 b - - 0 1'' [''d2d4'', ''e2e4'']
         (db0 game0 40))) ''g1'' = Some game'
     \<and> historyOf game' = [''d2d4'', ''e2e4'']
     \<and> presetName game' = ''Normal'' \<and> costModeName game' = ''distance''
     \<and> status game' = active
     \<and> whitePlayerId game' = ''alice'' \<and> blackPlayerId game' = Some ''bob''"
  using makeMove_alone_appends_move_record [OF makeMove_e2e4_paid db0_fields(1)]
  by (auto simp: historyOf_def game0_fields)

section \<open>Calls of makeMove, alone and together\<close>

text \<open>
  A call whose three operations run with no other call in between returns what
  \<^verbatim>\<open>makeMove\<close> returns and leaves the store that \<^verbatim>\<open>makeMove\<close> leaves.
\<close>

lemma makeMove_alone:
  "runMoves chess config [0, 0, 0]
     ([(\<lparr>req_auth = auth, req_gameId = gameId, req_from = from, req_to = to,
          req_promotion = promotion, req_capturingKing = capturingKing\<rparr>, Requested)], d) =
   ([(\<lparr>req_auth = auth, req_gameId = gameId, req_from = from, req_to = to,
         req_promotion = promotion, req_capturingKing = capturingKing\<rparr>,
       Returned (fst (makeMove chess config auth gameId from to promotion capturingKing d)))],
    snd (makeMove chess config auth gameId from to promotion capturingKing d))"
  by (auto simp: makeMove_def readGameAndValidate_def readBalanceAndCheck_def commitMove_def
      Let_def split: sum.splits option.splits)

lemma standin_move_g1f3: "standin_move legal0 pos0 ''g1'' ''f3'' None = Some pos_g1f3"
  by (simp add: standin_move_def pos0_def legal0_def promoted_def pos_g1f3_def)

lemma standin_fen_g1f3: "standin_fen pos_g1f3 = ''4k3/3P4/8/8/8/5N2/4P3/4K3 b - - 0 1''"
  by (simp add: standin_fen_def gapStr_def letterOf_def pieceLetters_def pos_g1f3_def)

lemma moveDistance_g1f3: "moveDistance n ''g1'' ''f3'' = Some 3"
  by (simp add: moveDistance_def charCodeAt_def)

lemma validateAndApplyMove_g1f3:
  "validateAndApplyMove (standin legal0) game0 ''alice'' ''g1'' ''f3'' None False presetNormal =
     Inr \<lparr>newFen = ''4k3/3P4/8/8/8/5N2/4P3/4K3 b - - 0 1'', cost = Some 30,
          moveRecord = ''g1f3''\<rparr>"
proof -
  have pr: "promotionPiece None (Piece White n) ''f3'' = None"
    by (simp add: promotionPiece_def isPromotion_def)
  have gt: "map_of (fst pos0) ''g1'' = Some (Piece White n)"
    by (simp add: pos0_def)
  have mv: "applyNormalMove (standin legal0) game0 ''alice'' ''g1'' ''f3'' None =
      Inr (Piece White n, pos_g1f3)"
    by (simp add: applyNormalMove_def game0_fields alignTurn_fen0 standin_sel standin_get
        standin_new_fen0 gt pr standin_move_g1f3)
  show ?thesis
    by (simp add: validateAndApplyMove_def mv standin_sel standin_fen_g1f3 calculateCost_def
        game0_fields moveDistance_g1f3 presetNormal_def)
qed

lemma readGameAndValidate_e2e4:
  "readGameAndValidate (standin legal0) DEFAULT_CONFIG req_e2e4 (db0 game0 bal) =
     GameRead ''alice'' game0
       \<lparr>newFen = ''4k3/3P4/8/8/4P3/8/8/4K1N1 b - - 0 1'', cost = Some 20,
        moveRecord = ''e2e4''\<rparr>"
proof -
  have res: "validateAndApplyMove (standin legal0) game0 ''alice'' ''e2'' ''e4'' None False
      presetNormal =
      Inr \<lparr>newFen = ''4k3/3P4/8/8/4P3/8/8/4K1N1 b - - 0 1'', cost = Some 20,
           moveRecord = ''e2e4''\<rparr>"
    by (simp add: validateAndApplyMove_e2e4 game0_fields presetNormal_def)
  show ?thesis
    by (simp add: readGameAndValidate_def req_e2e4_def getGame_def db0_fields game0_fields
        getPreset_Normal res)
qed

lemma readGameAndValidate_g1f3:
  "readGameAndValidate (standin legal0) DEFAULT_CONFIG req_g1f3 (db0 game0 bal) =
     GameRead ''alice'' game0
       \<lparr>newFen = ''4k3/3P4/8/8/8/5N2/4P3/4K3 b - - 0 1'', cost = Some 30,
        moveRecord = ''g1f3''\<rparr>"
  by (simp add: readGameAndValidate_def req_g1f3_def getGame_def db0_fields game0_fields
      getPreset_Normal validateAndApplyMove_g1f3)

lemma readBalanceAndCheck_100:
  "readBalanceAndCheck req_e2e4 ''alice'' game0
     \<lparr>newFen = ''4k3/3P4/8/8/4P3/8/8/4K1N1 b - - 0 1'', cost = Some 20, moveRecord = ''e2e4''\<rparr>
     (db0 game0 100) =
   WritesReady ''alice'' ''4k3/3P4/8/8/4P3/8/8/4K1N1 b - - 0 1'' [''d2d4'', ''e2e4'']
     (Some (20, 80))"
  "readBalanceAndCheck req_g1f3 ''alice'' game0
     \<lparr>newFen = ''4k3/3P4/8/8/8/5N2/4P3/4K3 b - - 0 1'', cost = Some 30, moveRecord = ''g1f3''\<rparr>
     (db0 game0 100) =
   WritesReady ''alice'' ''4k3/3P4/8/8/8/5N2/4P3/4K3 b - - 0 1'' [''d2d4'', ''g1f3'']
     (Some (30, 70))"
  by (simp_all add: readBalanceAndCheck_def req_e2e4_def req_g1f3_def db0_fields checkBalance_def
      historyOf_def game0_fields)

text \<open>
  Claim C10 fails on the code. Two of Alice's moves are in flight in the game whose
  history is \<open>d2d4\<close>: each call reads the game before the other writes. Both calls
  succeed, each returning the history it built from what it read; the second write puts
  its whole array over the first, so the stored sequence is \<open>d2d4, g1f3\<close> and the record
  \<open>e2e4\<close> of the first successful move is gone.
\<close>

theorem lost_move_record_interleaving:
  "map snd (fst (runMoves (standin legal0) DEFAULT_CONFIG [0, 1, 0, 1, 0, 1]
                   ([(req_e2e4, Requested), (req_g1f3, Requested)], db0 game0 100))) =
     [Returned (Inr \<lparr>resp_fen = ''4k3/3P4/8/8/4P3/8/8/4K1N1 b - - 0 1'',
                     resp_moveHistory = [''d2d4'', ''e2e4''], resp_cost = 20,
                     resp_newBalance = 80\<rparr>),
      Returned (Inr \<lparr>resp_fen = ''4k3/3P4/8/8/8/5N2/4P3/4K3 b - - 0 1'',
                     resp_moveHistory = [''d2d4'', ''g1f3''], resp_cost = 30,
                     resp_newBalance = 70\<rparr>)]
   \<and> map_option historyOf (games (db0 game0 100) ''g1'') = Some [''d2d4'']
   \<and> map_option historyOf
       (games (snd (runMoves (standin legal0) DEFAULT_CONFIG [0, 1, 0, 1, 0, 1]
                      ([(req_e2e4, Requested), (req_g1f3, Requested)], db0 game0 100))) ''g1'') =
     Some [''d2d4'', ''g1f3'']"
proof -
  have final: "runMoves (standin legal0) DEFAULT_CONFIG [0, 1, 0, 1, 0, 1]
                   ([(req_e2e4, Requested), (req_g1f3, Requested)], db0 game0 100) =
      ([(req_e2e4,
         Returned (Inr \<lparr>resp_fen = ''4k3/3P4/8/8/4P3/8/8/4K1N1 b - - 0 1'',
                     resp_moveHistory = [''d2d4'', ''e2e4''], resp_cost = 20,
                     resp_newBalance = 80\<rparr>)),
        (req_g1f3,
         Returned (Inr \<lparr>resp_fen = ''4k3/3P4/8/8/8/5N2/4P3/4K3 b - - 0 1'',
                     resp_moveHistory = [''d2d4'', ''g1f3''], resp_cost = 30,
                     resp_newBalance = 70\<rparr>))],
       setStepBalance ''g1'' ''alice'' 70
         (updateGameMove ''g1'' ''4k3/3P4/8/8/8/5N2/4P3/4K3 b - - 0 1'' [''d2d4'', ''g1f3'']
            (setStepBalance ''g1'' ''alice'' 80
               (updateGameMove ''g1'' ''4k3/3P4/8/8/4P3/8/8/4K1N1 b - - 0 1''
                  [''d2d4'', ''e2e4''] (db0 game0 100)))))"
    by (simp add: readGameAndValidate_e2e4 readGameAndValidate_g1f3 readBalanceAndCheck_100
        commitMove_def) (simp add: req_e2e4_def req_g1f3_def)
  show ?thesis
    unfolding final
    by (simp add: db0_fields historyOf_def game0_fields setStepBalance_def
        updateGameMove_def updateGameState_def)
qed

section \<open>Promotion\<close>

lemma standin_move_d7d8: "standin_move legal0 pos0 ''d7'' ''d8'' (Some ''q'') = Some pos_d7d8"
  by (simp add: standin_move_def pos0_def legal0_def promoted_def pos_d7d8_def pieceLetters_def)

lemma standin_fen_d7d8: "standin_fen pos_d7d8 = ''3Qk3/8/8/8/8/8/4P3/4K1N1 b - - 0 1''"
  by (simp add: standin_fen_def gapStr_def letterOf_def pieceLetters_def pos_d7d8_def)

lemma moveDistance_d7: "moveDistance p ''d7'' ''d8'' = Some 1" "moveDistance p ''d7'' ''e8'' = Some 1"
  by (simp_all add: moveDistance_def charCodeAt_def)

text \<open>
  Claim C7. When the piece on the origin is a pawn, the destination is on rank 8 or 1 and
  the request carries no promotion piece, the engine is asked for the move with a queen
  as the promotion piece: the outcome is the one of the same request with the queen
  supplied, up to the move record, and a move that the engine accepts with the queen is
  not rejected as an invalid argument.
\<close>

theorem promotion_defaults_to_queen:
  assumes new: "chess_new chess
        (join_space (alignTurn (split_space (fen game))
           (if uid = whitePlayerId game then ''w'' else ''b''))) = Some c"
    and piece: "chess_get chess c from = Some boardPiece"
    and pawn: "ptype boardPiece = p"
    and rank: "1 < length to" "to ! 1 = CHR ''8'' \<or> to ! 1 = CHR ''1''"
  shows "validateAndApplyMove chess game uid from to None False preset =
           (case chess_move chess c from to (Some ''q'') of
              None \<Rightarrow> Inl (HttpsError invalid_argument (''Illegal move: '' @ from @ ''-'' @ to))
            | Some c' \<Rightarrow>
                Inr \<lparr>newFen = chess_fen chess c',
                     cost = calculateCost preset (costModeName game) p from to False,
                     moveRecord = from @ to\<rparr>)
       \<and> validateAndApplyMove chess game uid from to None False preset =
           map_sum (\<lambda>e. e) (\<lambda>res. res\<lparr>moveRecord := from @ to\<rparr>)
             (validateAndApplyMove chess game uid from to (Some ''q'') False preset)
       \<and> (games d gameId = Some game \<and> status game = active \<and> isPlayer uid game
            \<and> gameId \<noteq> [] \<and> from \<noteq> []
            \<and> getPreset config (presetName game) = Inr preset
            \<and> chess_move chess c from to (Some ''q'') \<noteq> None \<longrightarrow>
          (\<forall>msg. fst (makeMove chess config (Some uid) gameId from to None False d)
                   \<noteq> Inl (HttpsError invalid_argument msg)))"
proof -
  have promo: "promotionPiece None boardPiece to = Some ''q''"
    using pawn rank by (simp add: promotionPiece_def isPromotion_def)
  have lower: "promotionPiece (Some ''q'') boardPiece to = Some ''q''"
    by (simp add: promotionPiece_def toLowerCase_def toLowerChar_def)
  have normal: "applyNormalMove chess game uid from to pr =
      (case chess_move chess c from to (Some ''q'') of
         None \<Rightarrow> Inl (HttpsError invalid_argument (''Illegal move: '' @ from @ ''-'' @ to))
       | Some c' \<Rightarrow> Inr (boardPiece, c'))" if "pr = None \<or> pr = Some ''q''" for pr
    using that new piece promo lower
    by (auto simp: applyNormalMove_def Let_def split: option.splits)
  have first: "validateAndApplyMove chess game uid from to None False preset =
           (case chess_move chess c from to (Some ''q'') of
              None \<Rightarrow> Inl (HttpsError invalid_argument (''Illegal move: '' @ from @ ''-'' @ to))
            | Some c' \<Rightarrow>
                Inr \<lparr>newFen = chess_fen chess c',
                     cost = calculateCost preset (costModeName game) p from to False,
                     moveRecord = from @ to\<rparr>)"
    by (simp add: validateAndApplyMove_def normal pawn split: option.splits)
  have second: "validateAndApplyMove chess game uid from to None False preset =
           map_sum (\<lambda>e. e) (\<lambda>res. res\<lparr>moveRecord := from @ to\<rparr>)
             (validateAndApplyMove chess game uid from to (Some ''q'') False preset)"
    by (simp add: validateAndApplyMove_def normal split: option.splits)
  have third: "fst (makeMove chess config (Some uid) gameId from to None False d)
                   \<noteq> Inl (HttpsError invalid_argument msg)"
    if h: "games d gameId = Some game" "status game = active" "isPlayer uid game"
      "gameId \<noteq> []" "from \<noteq> []" "getPreset config (presetName game) = Inr preset"
      "chess_move chess c from to (Some ''q'') \<noteq> None" for msg
  proof -
    from h(7) obtain c' where c': "chess_move chess c from to (Some ''q'') = Some c'"
      by auto
    have g: "getGame d gameId = Inr game"
      using h(1) by (simp add: getGame_def)
    have pl: "\<not> (uid \<noteq> whitePlayerId game \<and> Some uid \<noteq> blackPlayerId game)"
      using h(3) by (simp add: isPlayer_def)
    have to: "to \<noteq> []"
      using rank(1) by auto
    show ?thesis
      unfolding makeMove_def using h(4,5) to
      by (simp add: pl g h(2,6) first c' Let_def checkBalance_def insufficientSteps_def
          split: option.splits)
  qed
  show ?thesis
    using first second third by blast
qed

theorem promotion_defaults_to_queen_witness:
  "validateAndApplyMove (standin legal0) game0 ''alice'' ''d7'' ''d8'' None False presetNormal =
     Inr \<lparr>newFen = ''3Qk3/8/8/8/8/8/4P3/4K1N1 b - - 0 1'', cost = Some 10,
          moveRecord = ''d7d8''\<rparr>"
proof -
  have new: "chess_new (standin legal0)
        (join_space (alignTurn (split_space (fen game0))
           (if ''alice'' = whitePlayerId game0 then ''w'' else ''b''))) = Some pos0"
    by (simp add: game0_fields alignTurn_fen0 standin_sel standin_new_fen0)
  have piece: "chess_get (standin legal0) pos0 ''d7'' = Some (Piece White p)"
    by (simp add: standin_get pos0_def)
  have c: "calculateCost presetNormal (costModeName game0) p ''d7'' ''d8'' False = Some 10"
    by (simp add: calculateCost_def game0_fields moveDistance_d7 presetNormal_def)
  show ?thesis
    using promotion_defaults_to_queen [OF new piece, of "''d8''" presetNormal]
    by (simp add: standin_sel standin_move_d7d8 standin_fen_d7d8 c)
qed

section \<open>King capture\<close>

lemma standin_capture_d7e8:
  "standin_put (standin_remove (standin_remove pos0 ''e8'') ''d7'') (Piece White p) ''e8'' = pos_d7e8"
  by (simp add: standin_put_def standin_remove_def pos0_def pos_d7e8_def isSquare_def)

lemma standin_fen_d7e8: "standin_fen pos_d7e8 = ''4P3/8/8/8/8/8/4P3/4K1N1 w - - 0 1''"
  by (simp add: standin_fen_def gapStr_def letterOf_def pieceLetters_def pos_d7e8_def)

lemma calculateCost_capturingKing:
  "calculateCost preset ''fixed'' piece from to True = Some (baseCostFor preset piece * 2)"
  "calculateCost preset ''fixed'' piece from to False = Some (baseCostFor preset piece)"
  "mode \<noteq> ''fixed'' \<Longrightarrow>
     calculateCost preset mode piece from to True = calculateCost preset mode piece from to False"
  by (simp_all add: calculateCost_def)

lemma pos0_d7: "map_of (fst pos0) ''d7'' = Some (Piece White p)"
  by (simp add: pos0_def)

lemma makeMove_d7e8:
  assumes "mode = ''distance'' \<and> c = 10 \<or> mode = ''fixed'' \<and> c = 100" "c \<le> bal"
  shows "makeMove (standin legal0) DEFAULT_CONFIG (Some ''alice'') ''g1'' ''d7'' ''e8'' None True
     (db0 (game0\<lparr>costModeName := mode\<rparr>) bal) =
   (Inr \<lparr>resp_fen = ''4P3/8/8/8/8/8/4P3/4K1N1 w - - 0 1'',
         resp_moveHistory = [''d2d4'', ''d7e8''], resp_cost = c, resp_newBalance = bal - c\<rparr>,
    setStepBalance ''g1'' ''alice'' (bal - c)
      (updateGameMove ''g1'' ''4P3/8/8/8/8/8/4P3/4K1N1 w - - 0 1'' [''d2d4'', ''d7e8'']
         (db0 (game0\<lparr>costModeName := mode\<rparr>) bal)))"
proof -
  let ?game = "game0\<lparr>costModeName := mode\<rparr>"
  have cap: "applyKingCapture (standin legal0) fen0 ''d7'' ''e8'' = Inr (Piece White p, pos_d7e8)"
    by (simp add: applyKingCapture_def standin_sel standin_get standin_new_fen0
        standin_capture_d7e8 pos0_d7)
  have cst: "calculateCost presetNormal mode p ''d7'' ''e8'' True = Some c"
    using assms(1) by (auto simp: calculateCost_def moveDistance_d7 presetNormal_def)
  have res: "validateAndApplyMove (standin legal0) ?game ''alice'' ''d7'' ''e8'' None True
      presetNormal =
      Inr \<lparr>newFen = ''4P3/8/8/8/8/8/4P3/4K1N1 w - - 0 1'', cost = Some c,
           moveRecord = ''d7e8''\<rparr>"
    by (simp add: validateAndApplyMove_def game0_fields cap standin_sel standin_fen_d7e8 cst)
  have pl: "isPlayer ''alice'' ?game"
    by (simp add: isPlayer_def game0_fields)
  have pre: "getPreset DEFAULT_CONFIG (presetName ?game) = Inr presetNormal"
    by (simp add: game0_fields getPreset_Normal)
  have act: "status ?game = active"
    by (simp add: game0_fields)
  show ?thesis
    using makeMove_priced [of "db0 ?game bal" "''g1''" ?game "''alice''" "''d7''"
        "''e8''" DEFAULT_CONFIG presetNormal "standin legal0" None True _ c,
        OF db0_fields(1) act pl _ _ _ pre res] assms(2)
    by (simp add: db0_fields checkBalance_def historyOf_def game0_fields)
qed

text \<open>
  Claim C6, as the code has it. A king-capture move by a player of an active game fails as
  an invalid argument when the origin holds no piece. Otherwise the engine's move
  validation plays no part in the outcome: the new board is the stored one after the
  engine's \<^verbatim>\<open>remove\<close> of the destination, \<^verbatim>\<open>remove\<close> of the origin and \<^verbatim>\<open>put\<close> of the
  attacker on the destination. The price is twice the attacker's base cost in the cost
  mode \<^verbatim>\<open>fixed\<close>; in the other modes it is the price of an ordinary move.
\<close>

theorem king_capture_bypasses_legality:
  assumes game: "games d gameId = Some game"
    and act: "status game = active"
    and player: "isPlayer uid game"
    and args: "gameId \<noteq> []" "from \<noteq> []" "to \<noteq> []"
    and preset: "getPreset config (presetName game) = Inr preset"
    and new: "chess_new chess (fen game) = Some c"
  shows "(chess_get chess c from = None \<longrightarrow>
            makeMove chess config (Some uid) gameId from to promotion True d =
              (Inl (HttpsError invalid_argument (''No piece at '' @ from)), d))
       \<and> (\<forall>attacker. chess_get chess c from = Some attacker \<longrightarrow>
            validateAndApplyMove chess game uid from to promotion True preset =
              Inr \<lparr>newFen = chess_fen chess
                               (chess_put chess (chess_remove chess (chess_remove chess c to) from)
                                  attacker to),
                   cost = (if costModeName game = ''fixed''
                           then Some (baseCostFor preset (ptype attacker) * 2)
                           else calculateCost preset (costModeName game) (ptype attacker)
                                  from to False),
                   moveRecord = from @ to @ (case promotion of None \<Rightarrow> [] | Some pr \<Rightarrow> pr)\<rparr>)
       \<and> (\<forall>mv. makeMove (chess\<lparr>chess_move := mv\<rparr>) config (Some uid) gameId from to promotion
                   True d =
                 makeMove chess config (Some uid) gameId from to promotion True d)"
proof -
  have g: "getGame d gameId = Inr game"
    using game by (simp add: getGame_def)
  have pl: "\<not> (uid \<noteq> whitePlayerId game \<and> Some uid \<noteq> blackPlayerId game)"
    using player by (simp add: isPlayer_def)
  have none: "makeMove chess config (Some uid) gameId from to promotion True d =
              (Inl (HttpsError invalid_argument (''No piece at '' @ from)), d)"
    if "chess_get chess c from = None"
  proof -
    have "validateAndApplyMove chess game uid from to promotion True preset =
        Inl (HttpsError invalid_argument (''No piece at '' @ from))"
      using that by (simp add: validateAndApplyMove_def applyKingCapture_def new)
    then show ?thesis
      unfolding makeMove_def using args by (simp add: pl g act preset)
  qed
  have some: "validateAndApplyMove chess game uid from to promotion True preset =
              Inr \<lparr>newFen = chess_fen chess
                               (chess_put chess (chess_remove chess (chess_remove chess c to) from)
                                  attacker to),
                   cost = (if costModeName game = ''fixed''
                           then Some (baseCostFor preset (ptype attacker) * 2)
                           else calculateCost preset (costModeName game) (ptype attacker)
                                  from to False),
                   moveRecord = from @ to @ (case promotion of None \<Rightarrow> [] | Some pr \<Rightarrow> pr)\<rparr>"
    if "chess_get chess c from = Some attacker" for attacker
    using that
    by (simp add: validateAndApplyMove_def applyKingCapture_def new calculateCost_capturingKing)
  have indep: "validateAndApplyMove (chess\<lparr>chess_move := mv\<rparr>) game uid from to promotion True
        preset = validateAndApplyMove chess game uid from to promotion True preset" for mv
    by (simp add: validateAndApplyMove_def applyKingCapture_def new split: option.splits)
  have same: "makeMove (chess\<lparr>chess_move := mv\<rparr>) config (Some uid) gameId from to promotion
                   True d =
                 makeMove chess config (Some uid) gameId from to promotion True d" for mv
    unfolding makeMove_def by (simp add: g act pl preset indep)
  show ?thesis
    using none some same by blast
qed

theorem king_capture_bypasses_legality_witness:
  "validateAndApplyMove (standin legal0) (game0\<lparr>costModeName := ''fixed''\<rparr>) ''alice'' ''d7''
     ''e8'' None True presetNormal =
     Inr \<lparr>newFen = ''4P3/8/8/8/8/8/4P3/4K1N1 w - - 0 1'', cost = Some 100,
          moveRecord = ''d7e8''\<rparr>"
proof -
  let ?game = "game0\<lparr>costModeName := ''fixed''\<rparr>"
  have pl: "isPlayer ''alice'' ?game"
    by (simp add: isPlayer_def game0_fields)
  have pre: "getPreset DEFAULT_CONFIG (presetName ?game) = Inr presetNormal"
    by (simp add: game0_fields getPreset_Normal)
  have act: "status ?game = active"
    by (simp add: game0_fields)
  have new: "chess_new (standin legal0) (fen ?game) = Some pos0"
    by (simp add: game0_fields standin_sel standin_new_fen0)
  have piece: "chess_get (standin legal0) pos0 ''d7'' = Some (Piece White p)"
    by (simp add: standin_get pos0_d7)
  have base: "pawn presetNormal = 50"
    by (simp add: presetNormal_def)
  show ?thesis
    using king_capture_bypasses_legality [of "db0 ?game 400" "''g1''" ?game "''alice''" "''d7''"
        "''e8''" DEFAULT_CONFIG presetNormal "standin legal0" pos0 None,
        OF db0_fields(1) act pl _ _ _ pre new] piece
    by (simp add: standin_sel standin_capture_d7e8 standin_fen_d7e8 base)
qed

text \<open>
  Claim C6 as stated fails on the price: in the cost mode \<^verbatim>\<open>distance\<close> the capture of the
  king on e8 by the pawn on d7 costs 10, one step at the distance multiplier 10, where
  twice the pawn's base cost is 100.
\<close>

theorem king_capture_price_counterexample:
  "makeMove (standin legal0) DEFAULT_CONFIG (Some ''alice'') ''g1'' ''d7'' ''e8'' None True
     (db0 (game0\<lparr>costModeName := ''distance''\<rparr>) 40) =
   (Inr \<lparr>resp_fen = ''4P3/8/8/8/8/8/4P3/4K1N1 w - - 0 1'',
         resp_moveHistory = [''d2d4'', ''d7e8''], resp_cost = 10, resp_newBalance = 30\<rparr>,
    setStepBalance ''g1'' ''alice'' 30
      (updateGameMove ''g1'' ''4P3/8/8/8/8/8/4P3/4K1N1 w - - 0 1'' [''d2d4'', ''d7e8'']
         (db0 (game0\<lparr>costModeName := ''distance''\<rparr>) 40)))
   \<and> baseCostFor presetNormal p * 2 = 100"
  using makeMove_d7e8 [of "''distance''" 10 40] by (simp add: presetNormal_def)

section \<open>Presets and the cost of a move\<close>

lemma keepsPreset_refl: "keepsPreset d d"
  by (simp add: keepsPreset_def)

lemma keepsPreset_other_paths:
  "keepsPreset d (setStepBalance gameId uid v d') = keepsPreset d d'"
  "keepsPreset d (setUserActiveGame uid gameId d') = keepsPreset d d'"
  "keepsPreset d (clearUserActiveGames uids d') = keepsPreset d d'"
  "keepsPreset d (snd (atomicIncrementStepBalance gameId uid delta d')) = keepsPreset d d'"
  by (simp_all add: keepsPreset_def setStepBalance_def setUserActiveGame_def
      clearUserActiveGames_def atomicIncrementStepBalance_def Let_def)

lemma keepsPreset_updateGameState:
  assumes "\<And>game. presetName (updates game) = presetName game"
    and "\<And>game. costModeName (updates game) = costModeName game"
  shows "keepsPreset d (updateGameState gameId updates d)"
  using assms by (auto simp: keepsPreset_def updateGameState_def split: option.splits)

lemma keepsPreset_updateGameMove:
  "keepsPreset d (updateGameMove gameId fen' moveHistory' d)"
  unfolding updateGameMove_def by (rule keepsPreset_updateGameState) simp_all

lemma keepsPreset_makeMove:
  "keepsPreset d (snd (makeMove chess config auth gameId from to promotion capturingKing d))"
  by (simp add: makeMove_def Let_def keepsPreset_refl keepsPreset_other_paths
      keepsPreset_updateGameMove split: sum.splits option.splits)

lemma keepsPreset_joinGame: "keepsPreset d (snd (joinGame isEmulator auth gameId d))"
  by (simp add: joinGame_def keepsPreset_refl keepsPreset_other_paths
      keepsPreset_updateGameState split: sum.splits)

lemma keepsPreset_endGame: "keepsPreset d (snd (endGame auth gameId outcm d))"
  by (auto simp: endGame_def Let_def keepsPreset_refl keepsPreset_other_paths
      intro!: keepsPreset_updateGameState split: sum.splits option.splits)

lemma keepsPreset_submitStepDelta:
  "keepsPreset d (snd (submitStepDelta config auth gameId delta d))"
  by (auto simp: submitStepDelta_def keepsPreset_def atomicIncrementStepBalance_def Let_def
      split: sum.splits)

lemma keepsPreset_createGame:
  "games d newId = None \<Longrightarrow>
   keepsPreset d (snd (createGame auth presetNm costModeNm newId now d))"
  by (auto simp: createGame_def createGameRecord_def keepsPreset_def split: sum.splits)

lemma keepsPreset_stepMove: "keepsPreset d (snd (stepMove chess config req progress d))"
  by (cases progress)
    (simp_all add: commitMove_def keepsPreset_refl keepsPreset_other_paths
      keepsPreset_updateGameMove split: option.splits)

lemma getPreset_retuned_Normal:
  "getPreset (retuned ''preset_normal'' v) ''Normal'' =
     Inr (PresetValues.extend v (StepCostPreset.fields ''Normal''))"
  by (simp add: getPreset_def PRESET_CONFIG_KEYS_def retuned_def)

lemma makeMove_e2e4_retuned:
  "makeMove (standin legal0) (retuned ''preset_normal'' dearNormal) (Some ''alice'') ''g1'' ''e2''
     ''e4'' None False (db0 game0 40) =
   (Inr \<lparr>resp_fen = ''4k3/3P4/8/8/4P3/8/8/4K1N1 b - - 0 1'',
         resp_moveHistory = [''d2d4'', ''e2e4''], resp_cost = 40, resp_newBalance = 0\<rparr>,
    setStepBalance ''g1'' ''alice'' 0
      (updateGameMove ''g1'' ''4k3/3P4/8/8/4P3/8/8/4K1N1 b - - 0 1'' [''d2d4'', ''e2e4'']
         (db0 game0 40)))"
proof -
  let ?preset = "PresetValues.extend dearNormal (StepCostPreset.fields ''Normal'')"
  have dc: "distanceCost ?preset = 20"
    by (simp add: dearNormal_def PresetValues.extend_def StepCostPreset.fields_def)
  have res: "validateAndApplyMove (standin legal0) game0 ''alice'' ''e2'' ''e4'' None False
      ?preset =
      Inr \<lparr>newFen = ''4k3/3P4/8/8/4P3/8/8/4K1N1 b - - 0 1'', cost = Some 40,
           moveRecord = ''e2e4''\<rparr>"
    using validateAndApplyMove_e2e4 [of game0 ?preset] by (simp add: game0_fields dc)
  have pl: "isPlayer ''alice'' game0"
    by (simp add: isPlayer_def game0_fields)
  have pre: "getPreset (retuned ''preset_normal'' dearNormal) (presetName game0) = Inr ?preset"
    by (simp add: game0_fields getPreset_retuned_Normal)
  show ?thesis
    using makeMove_priced [of "db0 game0 40" "''g1''" game0 "''alice''" "''e2''"
        "''e4''" "retuned ''preset_normal'' dearNormal" ?preset "standin legal0" None False _ 40,
        OF db0_fields(1) game0_fields(4) pl _ _ _ pre res]
    by (simp add: db0_fields checkBalance_def historyOf_def game0_fields)
qed

text \<open>
  Claim C3 as stated fails: the same move e2 to e4 on the same stored game costs 20 under
  the default configuration and 40 once the distance multiplier of the preset \<^verbatim>\<open>Normal\<close>
  has been edited from 10 to 20.
\<close>

theorem preset_edit_changes_cost_counterexample:
  "fst (makeMove (standin legal0) DEFAULT_CONFIG (Some ''alice'') ''g1'' ''e2'' ''e4'' None False
          (db0 game0 40)) =
     Inr \<lparr>resp_fen = ''4k3/3P4/8/8/4P3/8/8/4K1N1 b - - 0 1'',
          resp_moveHistory = [''d2d4'', ''e2e4''], resp_cost = 20, resp_newBalance = 20\<rparr>
   \<and> fst (makeMove (standin legal0) (retuned ''preset_normal'' dearNormal) (Some ''alice'') ''g1''
            ''e2'' ''e4'' None False (db0 game0 40)) =
     Inr \<lparr>resp_fen = ''4k3/3P4/8/8/4P3/8/8/4K1N1 b - - 0 1'',
          resp_moveHistory = [''d2d4'', ''e2e4''], resp_cost = 40, resp_newBalance = 0\<rparr>"
  by (simp add: makeMove_e2e4_paid makeMove_e2e4_retuned)

text \<open>
  Claim C3, as the code has it. A game is created with the name of its preset, checked
  against the known names, and the name of its cost mode; the stored record holds no
  cost numbers. A move resolves the name against the configuration in effect when it is
  made: two configurations that hold the same value under the key of the game's preset
  name give the same outcome, whatever else differs between them. No handler changes
  the two names of a stored game afterwards: not the creation of another game under a
  fresh id, not \<^verbatim>\<open>joinGame\<close>, not \<^verbatim>\<open>makeMove\<close> (run alone, or any one of its database
  operations among those of other calls), not \<^verbatim>\<open>endGame\<close>, not \<^verbatim>\<open>submitStepDelta\<close>.
\<close>

theorem cost_follows_preset_name:
  "(createGame auth presetNm costModeNm newId now d0 = (Inr gid, d1) \<longrightarrow>
      gid = newId \<and> presetNm \<in> set KNOWN_PRESET_NAMES
      \<and> map_option presetName (games d1 newId) = Some presetNm
      \<and> map_option costModeName (games d1 newId) = Some costModeNm)
   \<and> ((\<forall>game key. games d gameId = Some game
                    \<and> map_of PRESET_CONFIG_KEYS (presetName game) = Some key
                    \<longrightarrow> getPresetJson config1 key = getPresetJson config2 key) \<longrightarrow>
       makeMove chess config1 auth gameId from to promotion capturingKing d =
       makeMove chess config2 auth gameId from to promotion capturingKing d)
   \<and> (games d0 newId = None \<longrightarrow>
        keepsPreset d0 (snd (createGame auth presetNm costModeNm newId now d0)))
   \<and> keepsPreset d (snd (joinGame isEmulator auth gameId d))
   \<and> keepsPreset d (snd (makeMove chess config1 auth gameId from to promotion capturingKing d))
   \<and> keepsPreset d (snd (stepMove chess config1 req progress d))
   \<and> keepsPreset d (snd (endGame auth gameId outcm d))
   \<and> keepsPreset d (snd (submitStepDelta config1 auth gameId delta d))"
proof -
  have created: "gid = newId \<and> presetNm \<in> set KNOWN_PRESET_NAMES
      \<and> map_option presetName (games d1 newId) = Some presetNm
      \<and> map_option costModeName (games d1 newId) = Some costModeNm"
    if "createGame auth presetNm costModeNm newId now d0 = (Inr gid, d1)"
    using that
    by (auto simp: createGame_def createGameRecord_def split: sum.splits if_splits)
  have moved: "makeMove chess config1 auth gameId from to promotion capturingKing d =
       makeMove chess config2 auth gameId from to promotion capturingKing d"
    if agree: "\<forall>game key. games d gameId = Some game
                    \<and> map_of PRESET_CONFIG_KEYS (presetName game) = Some key
                    \<longrightarrow> getPresetJson config1 key = getPresetJson config2 key"
  proof (cases "games d gameId")
    case None
    then show ?thesis
      by (simp add: makeMove_def getGame_def split: sum.splits)
  next
    case (Some game)
    have "getPreset config1 (presetName game) = getPreset config2 (presetName game)"
      using agree Some by (auto simp: getPreset_def split: option.splits)
    then show ?thesis
      by (simp add: makeMove_def getGame_def Some split: sum.splits)
  qed
  show ?thesis
  proof (intro conjI)
    show "createGame auth presetNm costModeNm newId now d0 = (Inr gid, d1) \<longrightarrow>
      gid = newId \<and> presetNm \<in> set KNOWN_PRESET_NAMES
      \<and> map_option presetName (games d1 newId) = Some presetNm
      \<and> map_option costModeName (games d1 newId) = Some costModeNm"
      using created by blast
    show "(\<forall>game key. games d gameId = Some game
                    \<and> map_of PRESET_CONFIG_KEYS (presetName game) = Some key
                    \<longrightarrow> getPresetJson config1 key = getPresetJson config2 key) \<longrightarrow>
       makeMove chess config1 auth gameId from to promotion capturingKing d =
       makeMove chess config2 auth gameId from to promotion capturingKing d"
      using moved by blast
    show "games d0 newId = None \<longrightarrow>
        keepsPreset d0 (snd (createGame auth presetNm costModeNm newId now d0))"
      by (simp add: keepsPreset_createGame)
  qed (rule keepsPreset_joinGame keepsPreset_makeMove keepsPreset_stepMove keepsPreset_endGame
        keepsPreset_submitStepDelta)+
qed

theorem cost_follows_preset_name_witness:
  "map_option presetName
     (games (snd (createGame (Some ''alice'') ''Normal'' ''distance'' ''g2'' ''2024-01-01''
                    \<lparr>games = Map.empty, userActiveGame = Map.empty, balance = Map.empty\<rparr>))
        ''g2'') = Some ''Normal''
   \<and> makeMove (standin legal0) (retuned ''preset_quick'' dearNormal) (Some ''alice'') ''g1'' ''e2''
       ''e4'' None False (db0 game0 40) =
     makeMove (standin legal0) DEFAULT_CONFIG (Some ''alice'') ''g1'' ''e2'' ''e4'' None False
       (db0 game0 40)
   \<and> map_option presetName
       (games (snd (endGame (Some ''alice'') ''g1'' (Some win) (db0 game0 40))) ''g1'') =
     Some ''Normal''
   \<and> map_option presetName
       (games (snd (joinGame False (Some ''alice'') ''g1'' (db0 game0 40))) ''g1'') =
     Some ''Normal''"
proof -
  let ?empty = "\<lparr>games = Map.empty, userActiveGame = Map.empty, balance = Map.empty\<rparr>"
  let ?made = "createGame (Some ''alice'') ''Normal'' ''distance'' ''g2'' ''2024-01-01'' ?empty"
  have made: "?made = (Inr ''g2'', snd ?made)"
    by (simp add: createGame_def KNOWN_PRESET_NAMES_def PRESET_CONFIG_KEYS_def
        assertNoActiveGame_def)
  have agree: "\<forall>game key. games (db0 game0 40) ''g1'' = Some game
                    \<and> map_of PRESET_CONFIG_KEYS (presetName game) = Some key
           \<longrightarrow> getPresetJson (retuned ''preset_quick'' dearNormal) key
                 = getPresetJson DEFAULT_CONFIG key"
    by (auto simp: db0_fields game0_fields PRESET_CONFIG_KEYS_def retuned_def)
  note inst = cost_follows_preset_name [where auth = "Some ''alice''" and presetNm = "''Normal''"
        and costModeNm = "''distance''" and newId = "''g2''" and now = "''2024-01-01''"
        and ?d0.0 = ?empty and gid = "''g2''" and ?d1.0 = "snd ?made"
        and d = "db0 game0 40" and gameId = "''g1''"
        and ?config1.0 = "retuned ''preset_quick'' dearNormal" and ?config2.0 = DEFAULT_CONFIG
        and chess = "standin legal0" and ?from = "''e2''" and to = "''e4''"
        and promotion = None and capturingKing = False and isEmulator = False
        and outcm = "Some win"]
  have names: "map_option presetName (games d' ''g1'') = Some ''Normal''"
    if "keepsPreset (db0 game0 40) d'" for d'
    using that db0_fields(1) [of game0 40] unfolding keepsPreset_def
    by (fastforce simp: game0_fields)
  have first: "map_option presetName (games (snd ?made) ''g2'') = Some ''Normal''"
    and second: "makeMove (standin legal0) (retuned ''preset_quick'' dearNormal) (Some ''alice'')
        ''g1'' ''e2'' ''e4'' None False (db0 game0 40) =
      makeMove (standin legal0) DEFAULT_CONFIG (Some ''alice'') ''g1'' ''e2'' ''e4'' None False
        (db0 game0 40)"
    and ended: "keepsPreset (db0 game0 40)
        (snd (endGame (Some ''alice'') ''g1'' (Some win) (db0 game0 40)))"
    and joined: "keepsPreset (db0 game0 40)
        (snd (joinGame False (Some ''alice'') ''g1'' (db0 game0 40)))"
    using inst made agree by blast+
  show ?thesis
    using first second names [OF ended] names [OF joined] by blast
qed

section \<open>Ending a game, and games that have ended\<close>

lemma clearUserActiveGames_cleared:
  "uid \<in> set uids \<Longrightarrow> userActiveGame (clearUserActiveGames uids d) uid = None"
proof -
  have "uid \<in> set uids \<or> m uid = None \<Longrightarrow> fold (\<lambda>u m. m(u := None)) uids m uid = None"
    for m :: "string \<rightharpoonup> string"
    by (induction uids arbitrary: m) auto
  then show "uid \<in> set uids \<Longrightarrow> userActiveGame (clearUserActiveGames uids d) uid = None"
    by (simp add: clearUserActiveGames_def)
qed

lemma clearUserActiveGames_games: "games (clearUserActiveGames uids d) = games d"
  by (simp add: clearUserActiveGames_def)

lemma endGame_accepted:
  assumes "games d gameId = Some game" "isPlayer uid game" "gameId \<noteq> []"
  shows "endGame (Some uid) gameId (Some oc) d =
     (Inr (),
      clearUserActiveGames
        (whitePlayerId game #
           (if truthy (blackPlayerId game) then [the (blackPlayerId game)] else []))
        (updateGameState gameId
           (\<lambda>g. let g' = g\<lparr>status := (if oc = outcome_abandoned then abandoned else completed),
                            outcome := Some oc\<rparr>
                in if oc = win then g'\<lparr>winnerId := Some uid\<rparr> else g') d))"
proof -
  have g: "getGame d gameId = Inr game"
    using assms(1) by (simp add: getGame_def)
  have pl: "\<not> (uid \<noteq> whitePlayerId game \<and> Some uid \<noteq> blackPlayerId game)"
    using assms(2) by (simp add: isPlayer_def)
  show ?thesis
    unfolding endGame_def using assms(3) by (simp add: g pl Let_def)
qed

text \<open>
  Claim C8. A call of \<^verbatim>\<open>endGame\<close> by a player of the game with one of the three outcomes
  succeeds; the stored game then has the status \<^verbatim>\<open>completed\<close> for a win or a draw and
  \<^verbatim>\<open>abandoned\<close> otherwise, carries the outcome, has the caller as winner when the outcome
  is a win and its former winner field otherwise; and the active-game pointers of the
  white player and of the black player (an auth uid, so not the empty string) are gone,
  whatever the outcome.
\<close>

theorem endGame_records_outcome:
  assumes game: "games d gameId = Some game"
    and player: "isPlayer uid game"
    and gid: "gameId \<noteq> []"
  shows "\<exists>d' game'. endGame (Some uid) gameId (Some oc) d = (Inr (), d')
           \<and> games d' gameId = Some game'
           \<and> (oc = win \<or> oc = draw \<longrightarrow> status game' = completed)
           \<and> (oc = outcome_abandoned \<longrightarrow> status game' = abandoned)
           \<and> outcome game' = Some oc
           \<and> (oc = win \<longrightarrow> winnerId game' = Some uid)
           \<and> (oc \<noteq> win \<longrightarrow> winnerId game' = winnerId game)
           \<and> userActiveGame d' (whitePlayerId game) = None
           \<and> (\<forall>bl. blackPlayerId game = Some bl \<and> bl \<noteq> [] \<longrightarrow> userActiveGame d' bl = None)"
proof -
  let ?uids = "whitePlayerId game #
           (if truthy (blackPlayerId game) then [the (blackPlayerId game)] else [])"
  let ?upd = "\<lambda>g. let g' = g\<lparr>status := (if oc = outcome_abandoned then abandoned else completed),
                            outcome := Some oc\<rparr>
                in if oc = win then g'\<lparr>winnerId := Some uid\<rparr> else g'"
  let ?d' = "clearUserActiveGames ?uids (updateGameState gameId ?upd d)"
  have run: "endGame (Some uid) gameId (Some oc) d = (Inr (), ?d')"
    by (rule endGame_accepted [OF game player gid])
  have stored: "games ?d' gameId = Some (?upd game)"
    by (simp add: clearUserActiveGames_games updateGameState_def game)
  have fields: "(oc = win \<or> oc = draw \<longrightarrow> status (?upd game) = completed)
      \<and> (oc = outcome_abandoned \<longrightarrow> status (?upd game) = abandoned)
      \<and> outcome (?upd game) = Some oc
      \<and> (oc = win \<longrightarrow> winnerId (?upd game) = Some uid)
      \<and> (oc \<noteq> win \<longrightarrow> winnerId (?upd game) = winnerId game)"
    by (cases oc) (simp_all add: Let_def)
  have white: "userActiveGame ?d' (whitePlayerId game) = None"
    by (rule clearUserActiveGames_cleared) simp
  have black: "userActiveGame ?d' bl = None" if "blackPlayerId game = Some bl" "bl \<noteq> []" for bl
    by (rule clearUserActiveGames_cleared) (simp add: that)
  show ?thesis
    using run stored fields white black by blast
qed

theorem endGame_records_outcome_witness:
  "\<exists>d' game'. endGame (Some ''alice'') ''g1'' (Some win) (db0 game0 0) = (Inr (), d')
      \<and> games d' ''g1'' = Some game'
      \<and> status game' = completed \<and> outcome game' = Some win \<and> winnerId game' = Some ''alice''
      \<and> userActiveGame d' ''alice'' = None \<and> userActiveGame d' ''bob'' = None"
proof -
  have pl: "isPlayer ''alice'' game0"
    by (simp add: isPlayer_def game0_fields)
  show ?thesis
    using endGame_records_outcome [where d = "db0 game0 0" and gameId = "''g1''"
        and game = game0 and uid = "''alice''" and oc = win, OF db0_fields(1) pl]
    by (simp add: game0_fields)
qed

text \<open>
  The other three handlers do check the status. On a game whose status is \<^verbatim>\<open>completed\<close>
  or \<^verbatim>\<open>abandoned\<close>, every \<^verbatim>\<open>makeMove\<close> and every \<^verbatim>\<open>joinGame\<close> of a signed-in caller
  with the required arguments fails with a failed-precondition error, and so does every
  \<^verbatim>\<open>submitStepDelta\<close> of a player of the game with a positive delta; none of them changes
  the store.
\<close>

lemma terminal_game_rejects_move_join_steps:
  assumes game: "games d gameId = Some game"
    and over: "status game = completed \<or> status game = abandoned"
    and gid: "gameId \<noteq> []"
  shows "(from \<noteq> [] \<and> to \<noteq> [] \<longrightarrow>
            makeMove chess config (Some uid) gameId from to promotion capturingKing d =
              (Inl (HttpsError failed_precondition ''Game is not active''), d))
       \<and> joinGame isEmulator (Some uid) gameId d =
            (Inl (HttpsError failed_precondition ''Game is already full''), d)
       \<and> (0 < delta \<and> isPlayer uid game \<longrightarrow>
            submitStepDelta config (Some uid) gameId delta d =
              (Inl (HttpsError failed_precondition ''Game is not active''), d))"
proof -
  have g: "getGame d gameId = Inr game"
    using game by (simp add: getGame_def)
  have na: "status game \<noteq> active" "status game \<noteq> waiting"
    using over by auto
  have move: "makeMove chess config (Some uid) gameId from to promotion capturingKing d =
              (Inl (HttpsError failed_precondition ''Game is not active''), d)"
    if "from \<noteq> []" "to \<noteq> []"
    unfolding makeMove_def using gid that by (simp add: g na)
  have join: "joinGame isEmulator (Some uid) gameId d =
            (Inl (HttpsError failed_precondition ''Game is already full''), d)"
    unfolding joinGame_def using gid by (simp add: g na)
  have steps: "submitStepDelta config (Some uid) gameId delta d =
              (Inl (HttpsError failed_precondition ''Game is not active''), d)"
    if "0 < delta" "isPlayer uid game"
  proof -
    have pl: "\<not> (uid \<noteq> whitePlayerId game \<and> Some uid \<noteq> blackPlayerId game)"
      using that(2) by (simp add: isPlayer_def)
    show ?thesis
      unfolding submitStepDelta_def using gid that(1) by (simp add: g na pl)
  qed
  show ?thesis
    using move join steps by blast
qed

lemma terminal_game_rejects_move_join_steps_on_won_game:
  "makeMove (standin legal0) DEFAULT_CONFIG (Some ''bob'') ''g1'' ''e8'' ''e7'' None False
     (db0 gameWon 50) =
     (Inl (HttpsError failed_precondition ''Game is not active''), db0 gameWon 50)
   \<and> joinGame False (Some ''carol'') ''g1'' (db0 gameWon 50) =
     (Inl (HttpsError failed_precondition ''Game is already full''), db0 gameWon 50)
   \<and> submitStepDelta DEFAULT_CONFIG (Some ''alice'') ''g1'' 250 (db0 gameWon 50) =
     (Inl (HttpsError failed_precondition ''Game is not active''), db0 gameWon 50)"
proof -
  have over: "status gameWon = completed \<or> status gameWon = abandoned"
    by (simp add: gameWon_def)
  have pl: "isPlayer ''alice'' gameWon"
    by (simp add: isPlayer_def gameWon_def game0_fields)
  have gid: "''g1'' \<noteq> []"
    by simp
  note inst = terminal_game_rejects_move_join_steps [where d = "db0 gameWon 50"
      and gameId = "''g1''" and game = gameWon and chess = "standin legal0"
      and config = DEFAULT_CONFIG and ?from = "''e8''" and to = "''e7''" and promotion = None
      and capturingKing = False and isEmulator = False and delta = 250,
      OF db0_fields(1) over gid]
  show ?thesis
    using inst [of "''bob''"] inst [of "''carol''"] inst [of "''alice''"] pl
    by simp
qed

text \<open>
  Claim C2 fails on the code for \<^verbatim>\<open>endGame\<close>, which never looks at the status: called
  by Alice with the outcome \<^verbatim>\<open>win\<close> on the game that was abandoned, it succeeds and the
  stored status becomes \<^verbatim>\<open>completed\<close>.
\<close>

theorem endGame_accepted_on_terminal_game:
  "status gameAbandoned = abandoned
   \<and> fst (endGame (Some ''alice'') ''g1'' (Some win) (db0 gameAbandoned 0)) = Inr ()
   \<and> map_option status
       (games (snd (endGame (Some ''alice'') ''g1'' (Some win) (db0 gameAbandoned 0))) ''g1'')
     = Some completed"
proof -
  have pl: "isPlayer ''alice'' gameAbandoned"
    by (simp add: isPlayer_def gameAbandoned_def game0_fields)
  show ?thesis
    by (simp add: endGame_accepted [OF db0_fields(1) pl] clearUserActiveGames_games
        updateGameState_def db0_fields Let_def) (simp add: gameAbandoned_def)
qed

section \<open>Leaderboard counters\<close>

lemma counters_incrementWin:
  "counters (incrementWin uid lb) u =
     (if u = uid then (counters lb uid)\<lparr>wins := wins (counters lb uid) + 1\<rparr> else counters lb u)"
  by (simp add: incrementWin_def counters_def)

lemma counters_incrementLoss:
  "counters (incrementLoss uid lb) u =
     (if u = uid then (counters lb uid)\<lparr>losses := losses (counters lb uid) + 1\<rparr>
      else counters lb u)"
  by (simp add: incrementLoss_def counters_def)

lemma counters_incrementDraw:
  "counters (incrementDraw uid lb) u =
     (if u = uid then (counters lb uid)\<lparr>draws := draws (counters lb uid) + 1\<rparr>
      else counters lb u)"
  by (simp add: incrementDraw_def counters_def)

text \<open>
  Claim C4. The reaction to an update of a game document changes the leaderboard only
  when the status changed and the new status is \<^verbatim>\<open>completed\<close>: an update into
  \<^verbatim>\<open>abandoned\<close> or any other status, an update that keeps the status, and a second
  delivery of an update from \<^verbatim>\<open>completed\<close> to \<^verbatim>\<open>completed\<close> leave every counter as it was.
  On a change into \<^verbatim>\<open>completed\<close> the result of the game is applied once: after a win
  the winner has one more win and the other player one more loss, after a draw both
  players have one more draw.
\<close>

theorem leaderboard_applied_once_per_completion:
  "(status af \<noteq> completed \<longrightarrow> onGameCompleted (Some bf) (Some af) lb = lb)
   \<and> (status bf = status af \<longrightarrow> onGameCompleted (Some bf) (Some af) lb = lb)
   \<and> (status bf \<noteq> completed \<and> status af = completed \<longrightarrow>
        onGameCompleted (Some af) (Some af) (onGameCompleted (Some bf) (Some af) lb) =
            onGameCompleted (Some bf) (Some af) lb
        \<and> (\<forall>w l. blackPlayerId af = Some l \<and> whitePlayerId af = w \<and> w \<noteq> l \<and> w \<noteq> [] \<and> l \<noteq> []
              \<longrightarrow>
              (outcome af = Some win \<and> winnerId af = Some w \<longrightarrow>
                 counters (onGameCompleted (Some bf) (Some af) lb) w =
                   (counters lb w)\<lparr>wins := wins (counters lb w) + 1\<rparr>
                 \<and> counters (onGameCompleted (Some bf) (Some af) lb) l =
                   (counters lb l)\<lparr>losses := losses (counters lb l) + 1\<rparr>)
              \<and> (outcome af = Some win \<and> winnerId af = Some l \<longrightarrow>
                 counters (onGameCompleted (Some bf) (Some af) lb) l =
                   (counters lb l)\<lparr>wins := wins (counters lb l) + 1\<rparr>
                 \<and> counters (onGameCompleted (Some bf) (Some af) lb) w =
                   (counters lb w)\<lparr>losses := losses (counters lb w) + 1\<rparr>)
              \<and> (outcome af = Some draw \<longrightarrow>
                 counters (onGameCompleted (Some bf) (Some af) lb) w =
                   (counters lb w)\<lparr>draws := draws (counters lb w) + 1\<rparr>
                 \<and> counters (onGameCompleted (Some bf) (Some af) lb) l =
                   (counters lb l)\<lparr>draws := draws (counters lb l) + 1\<rparr>)
              \<and> (outcome af = Some draw \<or> winnerId af = Some w \<or> winnerId af = Some l \<longrightarrow>
                 (\<forall>u. u \<noteq> w \<and> u \<noteq> l \<longrightarrow>
                    counters (onGameCompleted (Some bf) (Some af) lb) u = counters lb u))))"
proof -
  have again: "onGameCompleted (Some af) (Some af) lb' = lb'" for lb'
    by (simp add: onGameCompleted_def)
  show ?thesis
    by (auto simp: onGameCompleted_def again applyGameResult_def counters_incrementWin
        counters_incrementLoss counters_incrementDraw)
qed

theorem leaderboard_applied_once_per_completion_witness:
  "counters (onGameCompleted (Some game0) (Some gameWon) Map.empty) ''alice'' =
     \<lparr>wins = 1, losses = 0, draws = 0\<rparr>
   \<and> counters (onGameCompleted (Some game0) (Some gameWon) Map.empty) ''bob'' =
     \<lparr>wins = 0, losses = 1, draws = 0\<rparr>
   \<and> onGameCompleted (Some gameWon) (Some gameWon)
       (onGameCompleted (Some game0) (Some gameWon) Map.empty) =
     onGameCompleted (Some game0) (Some gameWon) Map.empty
   \<and> onGameCompleted (Some game0) (Some gameAbandoned) Map.empty = Map.empty"
proof -
  have won: "status gameWon = completed" "outcome gameWon = Some win"
    "winnerId gameWon = Some ''alice''" "whitePlayerId gameWon = ''alice''"
    "blackPlayerId gameWon = Some ''bob''"
    by (simp_all add: gameWon_def game0_fields)
  have left: "status gameAbandoned = abandoned"
    by (simp add: gameAbandoned_def)
  have zero: "counters Map.empty u = \<lparr>wins = 0, losses = 0, draws = 0\<rparr>" for u
    by (simp add: counters_def)
  show ?thesis
    using leaderboard_applied_once_per_completion [of gameWon game0 Map.empty]
      leaderboard_applied_once_per_completion [of gameAbandoned game0 Map.empty]
    by (simp add: won left zero game0_fields)
qed

section \<open>Concurrent spends\<close>

text \<open>
  Run alone, the two steps of a spend leave the balance that \<^verbatim>\<open>makeMove\<close> leaves.
\<close>

lemma spend_alone_is_makeMove:
  assumes "games d gameId = Some game" "status game = active" "isPlayer uid game"
    and "gameId \<noteq> []" "from \<noteq> []" "to \<noteq> []"
    and "getPreset config (presetName game) = Inr preset"
    and "validateAndApplyMove chess game uid from to promotion capturingKing preset = Inr res"
    and "cost res = Some c"
  shows "balance (snd (makeMove chess config (Some uid) gameId from to promotion capturingKing d))
       = balance (snd (run gameId uid [0, 0] ([(Spend c, NotStarted)], d)))"
proof (cases "getStepBalance d gameId uid < c")
  case True
  then show ?thesis
    by (simp add: makeMove_priced [OF assms] checkBalance_def)
next
  case False
  then show ?thesis
    by (simp add: makeMove_priced [OF assms] checkBalance_def setStepBalance_def
        updateGameMove_def updateGameState_def assms(1))
qed

text \<open>
  Claim C5 fails on the code. Alice has 100 steps and two of her moves, each costing 60,
  are in flight: both read the balance 100 before either writes. Both pass the check and
  both commit; the balance ends at 40 although 120 steps were spent and none earned.
\<close>

theorem double_spend_interleaving:
  "fst (run ''g1'' ''alice'' [0, 1, 0, 1]
          ([(Spend 60, NotStarted), (Spend 60, NotStarted)], db0 game0 100)) =
     [(Spend 60, Done True), (Spend 60, Done True)]
   \<and> getStepBalance
       (snd (run ''g1'' ''alice'' [0, 1, 0, 1]
               ([(Spend 60, NotStarted), (Spend 60, NotStarted)], db0 game0 100)))
       ''g1'' ''alice'' = 40
   \<and> spent (fst (run ''g1'' ''alice'' [0, 1, 0, 1]
                   ([(Spend 60, NotStarted), (Spend 60, NotStarted)], db0 game0 100))) = 120
   \<and> earned (fst (run ''g1'' ''alice'' [0, 1, 0, 1]
                    ([(Spend 60, NotStarted), (Spend 60, NotStarted)], db0 game0 100))) = 0
   \<and> getStepBalance (db0 game0 100) ''g1'' ''alice'' = 100"
  by (simp add: checkBalance_def getStepBalance_def setStepBalance_def db0_def)

lemma spends_in_turn:
  "fst (run ''g1'' ''alice'' [0, 0, 1, 1]
          ([(Spend 60, NotStarted), (Spend 60, NotStarted)], db0 game0 100)) =
     [(Spend 60, Done True), (Spend 60, Done False)]"
  by (simp add: checkBalance_def getStepBalance_def setStepBalance_def db0_def)

lemma earn_lost_under_spend:
  "getStepBalance
     (snd (run ''g1'' ''alice'' [0, 1, 0]
             ([(Spend 60, NotStarted), (Earn 50, NotStarted)], db0 game0 100)))
     ''g1'' ''alice'' = 40"
  by (simp add: checkBalance_def getStepBalance_def setStepBalance_def
      atomicIncrementStepBalance_def db0_def)

end
